theory Spec2Isabelle
  imports Main
begin

section \<open>The job record (jobs.ts)\<close>

text \<open>
  A timestamp is the number of milliseconds since the epoch. The source keeps it as the
  ISO string \<^verbatim>\<open>new Date().toISOString()\<close> and reads it back with
  \<^verbatim>\<open>new Date(s).getTime()\<close>; the two are inverse at millisecond precision, so
  the model keeps the number.
\<close>

type_synonym timestamp = int

datatype JobStatus = Pending | Running | Done | Error

datatype Tier = Basic | Pro

record JobInput =
  output_text :: string
  question :: string
  tier :: Tier
  callbackUrl :: "string option"

text \<open>
  The field \<^verbatim>\<open>result?: unknown\<close> carries the verification engine's payload; its type
  is the parameter \<open>'r\<close>. An optional field that is absent or \<^verbatim>\<open>undefined\<close> is
  \<open>None\<close>.
\<close>

record 'r Job =
  id_job :: string
  status :: JobStatus
  createdAt :: timestamp
  updatedAt :: timestamp
  input :: JobInput
  result :: "'r option"
  error :: "string option"

text \<open>
  \<^verbatim>\<open>Partial<Job>\<close>: every key may be missing (\<open>None\<close>). A key that is present
  carries a value; for the two optional fields of \<open>Job\<close> the value may itself be
  \<^verbatim>\<open>undefined\<close> (\<open>Some None\<close>), which the assignment copies.
\<close>

record 'r JobPatch =
  p_id :: "string option"
  p_status :: "JobStatus option"
  p_createdAt :: "timestamp option"
  p_updatedAt :: "timestamp option"
  p_input :: "JobInput option"
  p_result :: "'r option option"
  p_error :: "string option option"

definition no_patch :: "'r JobPatch" where
  "no_patch = \<lparr>p_id = None, p_status = None, p_createdAt = None, p_updatedAt = None,
     p_input = None, p_result = None, p_error = None\<rparr>"

text \<open>
  \<^verbatim>\<open>Object.assign(job, patch, { updatedAt: now })\<close> and
  \<^verbatim>\<open>{ ...job, ...patch, updatedAt: now }\<close>: the keys of the patch overwrite those of
  the job, then \<open>updatedAt\<close> is overwritten by the clock reading, whatever the patch
  holds.
\<close>

definition assign :: "'r Job \<Rightarrow> 'r JobPatch \<Rightarrow> timestamp \<Rightarrow> 'r Job" where
  "assign job patch now =
     \<lparr>id_job = (case p_id patch of None \<Rightarrow> id_job job | Some v \<Rightarrow> v),
      status = (case p_status patch of None \<Rightarrow> status job | Some v \<Rightarrow> v),
      createdAt = (case p_createdAt patch of None \<Rightarrow> createdAt job | Some v \<Rightarrow> v),
      updatedAt = now,
      input = (case p_input patch of None \<Rightarrow> input job | Some v \<Rightarrow> v),
      result = (case p_result patch of None \<Rightarrow> result job | Some v \<Rightarrow> v),
      error = (case p_error patch of None \<Rightarrow> error job | Some v \<Rightarrow> v)\<rparr>"

section \<open>The in-memory backend (queue.ts, class InMemoryBackend)\<close>

text \<open>
  \<^verbatim>\<open>private store = new Map<string, Job>()\<close>. Every record is set under one
  key only, so replacing the value at a key is the in-place mutation of the source.
\<close>

type_synonym 'r store = "string \<rightharpoonup> 'r Job"

text \<open>
  \<open>createJob\<close>: the environment supplies the value of \<^verbatim>\<open>randomUUID()\<close> and the
  two clock readings, one for each \<^verbatim>\<open>new Date()\<close> of the object literal, in the
  order they are evaluated.
\<close>

definition InMemory_createJob ::
  "string \<Rightarrow> timestamp \<Rightarrow> timestamp \<Rightarrow> JobInput \<Rightarrow> 'r store \<Rightarrow> 'r Job \<times> 'r store" where
  "InMemory_createJob uuid now1 now2 inp store =
     (let job = \<lparr>id_job = uuid, status = Pending, createdAt = now1, updatedAt = now2,
                 input = inp, result = None, error = None\<rparr>
      in (job, store(id_job job \<mapsto> job)))"

definition InMemory_getJob :: "string \<Rightarrow> 'r store \<Rightarrow> 'r Job option" where
  "InMemory_getJob jobId store = store jobId"

definition InMemory_updateJob ::
  "timestamp \<Rightarrow> string \<Rightarrow> 'r JobPatch \<Rightarrow> 'r store \<Rightarrow> 'r store" where
  "InMemory_updateJob now jobId patch store =
     (case store jobId of
        None \<Rightarrow> store
      | Some job \<Rightarrow> store(jobId \<mapsto> assign job patch now))"

text \<open>
  The same backend with its objects. The \<^verbatim>\<open>Map\<close> holds references:
  \<open>createJob\<close> and \<open>getJob\<close> hand out the stored object itself, and
  \<open>updateJob\<close> mutates it in place, so a caller who keeps a result sees later updates
  in it. \<open>objects\<close> is the heap, \<open>entries\<close> the \<^verbatim>\<open>Map\<close> from ids to
  addresses, \<open>fresh\<close> the next address. An object that the \<^verbatim>\<open>Map\<close> no longer
  holds lives on for whoever kept it. \<open>stored\<close> is the store of records of above, read
  off the heap; \<open>sound\<close> says that every entry points to an object and no two
  entries share one.
\<close>

record 'r memory =
  objects :: "nat \<rightharpoonup> 'r Job"
  entries :: "string \<rightharpoonup> nat"
  fresh :: nat

definition empty_memory :: "'r memory" where
  "empty_memory = \<lparr>objects = Map.empty, entries = Map.empty, fresh = 0\<rparr>"

definition Live_createJob ::
  "string \<Rightarrow> timestamp \<Rightarrow> timestamp \<Rightarrow> JobInput \<Rightarrow> 'r memory \<Rightarrow> nat \<times> 'r memory" where
  "Live_createJob uuid now1 now2 inp m =
     (let job = \<lparr>id_job = uuid, status = Pending, createdAt = now1, updatedAt = now2,
                 input = inp, result = None, error = None\<rparr>;
          a = fresh m
      in (a, \<lparr>objects = (objects m)(a \<mapsto> job), entries = (entries m)(id_job job \<mapsto> a),
              fresh = Suc a\<rparr>))"

definition Live_getJob :: "string \<Rightarrow> 'r memory \<Rightarrow> nat option" where
  "Live_getJob jobId m = entries m jobId"

definition Live_updateJob ::
  "timestamp \<Rightarrow> string \<Rightarrow> 'r JobPatch \<Rightarrow> 'r memory \<Rightarrow> 'r memory" where
  "Live_updateJob now jobId patch m =
     (case entries m jobId of
        None \<Rightarrow> m
      | Some a \<Rightarrow>
          (case objects m a of
             None \<Rightarrow> m
           | Some job \<Rightarrow> m\<lparr>objects := (objects m)(a \<mapsto> assign job patch now)\<rparr>))"

definition stored :: "'r memory \<Rightarrow> 'r store" where
  "stored m = (\<lambda>k. case entries m k of None \<Rightarrow> None | Some a \<Rightarrow> objects m a)"

definition sound :: "'r memory \<Rightarrow> bool" where
  "sound m =
     ((\<forall>k a. entries m k = Some a \<longrightarrow> a < fresh m \<and> objects m a \<noteq> None)
      \<and> (\<forall>k k' a. entries m k = Some a \<and> entries m k' = Some a \<longrightarrow> k = k'))"

text \<open>The constructor's timer: every 10 minutes, drop what was created over 1 h ago.\<close>

definition sweep_interval_ms :: int where
  "sweep_interval_ms = 10 * 60 * 1000"

definition retention_ms :: int where
  "retention_ms = 60 * 60 * 1000"

definition sweep :: "timestamp \<Rightarrow> 'r store \<Rightarrow> 'r store" where
  "sweep now store =
     (let cutoff = now - retention_ms
      in (\<lambda>k. case store k of
                  None \<Rightarrow> None
                | Some job \<Rightarrow> if createdAt job < cutoff then None else Some job))"

fun sweeps :: "timestamp list \<Rightarrow> 'r store \<Rightarrow> 'r store" where
  "sweeps [] store = store"
| "sweeps (t # ts) store = sweeps ts (sweep t store)"

section \<open>The durable backend (queue.ts, class BullMQBackend)\<close>

text \<open>
  A rejected promise or a thrown exception is \<open>Inl\<close> of its message.
\<close>

type_synonym rejection = string

text \<open>
  \<^verbatim>\<open>JSON.stringify\<close> and \<^verbatim>\<open>JSON.parse\<close> belong to the runtime, not to the
  repository: they are a parameter. \<open>parse\<close> is \<open>None\<close> where
  \<^verbatim>\<open>JSON.parse\<close> throws. Results are taken to be JSON values, so that
  \<open>stringify\<close> is total; \<open>codec_ok\<close> says that a record is never written as the
  empty string and is read back as it was written, and is assumed only where stated.
\<close>

record 'r codec =
  stringify :: "'r Job \<Rightarrow> string"
  parse :: "string \<Rightarrow> 'r Job option"

definition codec_ok :: "'r codec \<Rightarrow> bool" where
  "codec_ok json = (\<forall>job. stringify json job \<noteq> [] \<and> parse json (stringify json job) = Some job)"

text \<open>
  The ioredis client is the other external part. The database maps a key to its value
  and the expiry in seconds given with \<^verbatim>\<open>'EX'\<close>. Whether a command is answered
  or rejected (the client gives up after \<^verbatim>\<open>maxRetriesPerRequest\<close> reconnections) is
  decided by the environment: \<open>fault\<close> is \<open>Some\<close> of the rejection, and a
  rejected command leaves the database as it is.
\<close>

type_synonym redis = "string \<rightharpoonup> string \<times> nat"

definition client_get :: "rejection option \<Rightarrow> string \<Rightarrow> redis \<Rightarrow> rejection + string option" where
  "client_get fault k db =
     (case fault of Some e \<Rightarrow> Inl e | None \<Rightarrow> Inr (map_option fst (db k)))"

definition client_set ::
  "rejection option \<Rightarrow> string \<Rightarrow> string \<Rightarrow> nat \<Rightarrow> redis \<Rightarrow> (rejection + unit) \<times> redis" where
  "client_set fault k v ex db =
     (case fault of Some e \<Rightarrow> (Inl e, db) | None \<Rightarrow> (Inr (), db(k \<mapsto> (v, ex))))"

text \<open>
  \<open>ready\<close> is the promise of the constructor (the import of ioredis and the
  construction of the client): \<open>None\<close> when it resolved, \<open>Some\<close> of the reason
  when it rejected. Every method awaits it first.
\<close>

record BullMQBackend =
  ready :: "rejection option"
  client :: redis

definition key_prefix :: string where
  "key_prefix = ''pot-api:jobs''"

definition key :: "string \<Rightarrow> string" where
  "key jobId = key_prefix @ '':'' @ jobId"

definition BullMQ_createJob ::
  "'r codec \<Rightarrow> string \<Rightarrow> timestamp \<Rightarrow> timestamp \<Rightarrow> rejection option \<Rightarrow> JobInput \<Rightarrow>
     BullMQBackend \<Rightarrow> (rejection + 'r Job) \<times> BullMQBackend" where
  "BullMQ_createJob json uuid now1 now2 fault inp b =
     (case ready b of
        Some e \<Rightarrow> (Inl e, b)
      | None \<Rightarrow>
          (let job = \<lparr>id_job = uuid, status = Pending, createdAt = now1, updatedAt = now2,
                      input = inp, result = None, error = None\<rparr>
           in case client_set fault (key (id_job job)) (stringify json job) 86400 (client b) of
                (Inl e, db) \<Rightarrow> (Inl e, b\<lparr>client := db\<rparr>)
              | (Inr u, db) \<Rightarrow> (Inr job, b\<lparr>client := db\<rparr>)))"

text \<open>\<^verbatim>\<open>!raw\<close> holds of \<^verbatim>\<open>null\<close> (no such key) and of the empty string.\<close>

definition BullMQ_getJob ::
  "'r codec \<Rightarrow> rejection option \<Rightarrow> string \<Rightarrow> BullMQBackend \<Rightarrow> rejection + 'r Job option" where
  "BullMQ_getJob json fault jobId b =
     (case ready b of
        Some e \<Rightarrow> Inl e
      | None \<Rightarrow>
          (case client_get fault (key jobId) (client b) of
             Inl e \<Rightarrow> Inl e
           | Inr None \<Rightarrow> Inr None
           | Inr (Some raw) \<Rightarrow> if raw = [] then Inr None else Inr (parse json raw)))"

text \<open>
  The record is written back under the key of \<^verbatim>\<open>job.id\<close>, the id field of the
  record that was read, not under the \<open>id\<close> that was asked for.
\<close>

definition BullMQ_updateJob ::
  "'r codec \<Rightarrow> timestamp \<Rightarrow> rejection option \<Rightarrow> rejection option \<Rightarrow> string \<Rightarrow> 'r JobPatch \<Rightarrow>
     BullMQBackend \<Rightarrow> (rejection + unit) \<times> BullMQBackend" where
  "BullMQ_updateJob json now fault_get fault_set jobId patch b =
     (case ready b of
        Some e \<Rightarrow> (Inl e, b)
      | None \<Rightarrow>
          (case BullMQ_getJob json fault_get jobId b of
             Inl e \<Rightarrow> (Inl e, b)
           | Inr None \<Rightarrow> (Inr (), b)
           | Inr (Some job) \<Rightarrow>
               (let updated = assign job patch now
                in case client_set fault_set (key (id_job job)) (stringify json updated) 86400
                          (client b) of
                     (r, db) \<Rightarrow> (r, b\<lparr>client := db\<rparr>))))"

section \<open>The factory and the wrappers (queue.ts)\<close>

datatype 'r QueueBackend = InMemory "'r store" | BullMQ BullMQBackend

text \<open>
  \<open>getQueue\<close>: the cached backend if there is one, else the durable backend when
  \<^verbatim>\<open>REDIS_URL\<close> is a non-empty string, else the in-memory one. \<open>imported\<close> is the
  outcome of the constructor's promise.
\<close>

definition getQueue ::
  "string option \<Rightarrow> rejection option \<Rightarrow> 'r QueueBackend option \<Rightarrow> 'r QueueBackend" where
  "getQueue redisUrl imported backend =
     (case backend of
        Some b \<Rightarrow> b
      | None \<Rightarrow>
          (if redisUrl \<noteq> None \<and> redisUrl \<noteq> Some []
           then BullMQ \<lparr>ready = imported, client = Map.empty\<rparr>
           else InMemory Map.empty))"

text \<open>
  What the environment answers during one call of a wrapper: the UUID, the clock
  readings in the order they are taken, and the fate of the client's commands in the
  order they are sent.
\<close>

record env =
  env_uuid :: string
  env_now :: timestamp
  env_now2 :: timestamp
  env_fault :: "rejection option"
  env_fault2 :: "rejection option"

definition createJob ::
  "'r codec \<Rightarrow> env \<Rightarrow> JobInput \<Rightarrow> 'r QueueBackend \<Rightarrow> (rejection + 'r Job) \<times> 'r QueueBackend" where
  "createJob json e inp backend =
     (case backend of
        InMemory store \<Rightarrow>
          (case InMemory_createJob (env_uuid e) (env_now e) (env_now2 e) inp store of
             (job, store') \<Rightarrow> (Inr job, InMemory store'))
      | BullMQ b \<Rightarrow>
          (case BullMQ_createJob json (env_uuid e) (env_now e) (env_now2 e) (env_fault e) inp b of
             (r, b') \<Rightarrow> (r, BullMQ b')))"

definition getJob ::
  "'r codec \<Rightarrow> env \<Rightarrow> string \<Rightarrow> 'r QueueBackend \<Rightarrow> rejection + 'r Job option" where
  "getJob json e jobId backend =
     (case backend of
        InMemory store \<Rightarrow> Inr (InMemory_getJob jobId store)
      | BullMQ b \<Rightarrow> BullMQ_getJob json (env_fault e) jobId b)"

definition updateJob ::
  "'r codec \<Rightarrow> env \<Rightarrow> string \<Rightarrow> 'r JobPatch \<Rightarrow> 'r QueueBackend \<Rightarrow>
     (rejection + unit) \<times> 'r QueueBackend" where
  "updateJob json e jobId patch backend =
     (case backend of
        InMemory store \<Rightarrow> (Inr (), InMemory (InMemory_updateJob (env_now e) jobId patch store))
      | BullMQ b \<Rightarrow>
          (case BullMQ_updateJob json (env_now e) (env_fault e) (env_fault2 e) jobId patch b of
             (r, b') \<Rightarrow> (r, BullMQ b')))"

section \<open>The poll route (index.ts)\<close>

text \<open>
  \<^verbatim>\<open>app.get('/jobs/:id')\<close>: status 404 when \<open>getJob\<close> finds nothing, the record
  otherwise. The handler has no \<^verbatim>\<open>try\<close>: a rejection of \<open>getJob\<close> leaves it.
\<close>

datatype 'r response = Status404 string | Status200 "'r Job"

definition get_jobs_id ::
  "'r codec \<Rightarrow> env \<Rightarrow> string \<Rightarrow> 'r QueueBackend \<Rightarrow> rejection + 'r response" where
  "get_jobs_id json e jobId backend =
     (case getJob json e jobId backend of
        Inl rej \<Rightarrow> Inl rej
      | Inr None \<Rightarrow> Inr (Status404 ''Job not found'')
      | Inr (Some job) \<Rightarrow> Inr (Status200 job))"

section \<open>The runner and the webhook (index.ts)\<close>

text \<open>
  What a \<^verbatim>\<open>catch\<close> receives: an \<^verbatim>\<open>Error\<close> with its message, or any other
  value with its \<^verbatim>\<open>String(err)\<close>.
\<close>

datatype thrown = ErrorObject string | OtherValue string

fun message :: "thrown \<Rightarrow> string" where
  "message (ErrorObject m) = m"
| "message (OtherValue s) = s"

text \<open>
  The verification engine is opaque: its promise resolves with a result, rejects, or
  never settles (there is no timeout on it).
\<close>

datatype 'r verified = Returned 'r | Threw thrown | Hangs

text \<open>
  \<^verbatim>\<open>fetch\<close> resolves with a response whatever its status code is, and rejects on a
  network error or when the signal aborts it after the timeout.
\<close>

datatype fetched = Response nat | FetchRejected thrown

record 'r payload =
  w_jobId :: string
  w_status :: JobStatus
  w_result :: "'r option"
  w_error :: "string option"

record 'r request =
  req_url :: string
  req_method :: string
  req_headers :: "(string \<times> string) list"
  req_body :: "'r payload"
  req_timeout_ms :: nat

text \<open>What the runner does, in order: each awaited call with its outcome, each log line.\<close>

datatype 'r event =
    Called_updateJob string "'r JobPatch" "rejection + unit"
  | Called_verify string Tier "(string \<times> string) list" string
  | Called_fetch "'r request" fetched
  | Logged_warn string

datatype settled = Resolved | Rejected rejection | Suspended

text \<open>
  \<open>pushWebhook\<close>: one \<^verbatim>\<open>fetch\<close>; the \<^verbatim>\<open>catch\<close> logs a rejection. The response
  is not looked at. The whole body of the function is inside its \<^verbatim>\<open>try\<close>, so it has
  no way to throw: it returns its events only. (The payload is taken to serialise.)
\<close>

definition pushWebhook :: "fetched \<Rightarrow> string \<Rightarrow> 'r payload \<Rightarrow> 'r event list" where
  "pushWebhook f u pl =
     (let req = \<lparr>req_url = u, req_method = ''POST'',
                 req_headers = [(''Content-Type'', ''application/json'')],
                 req_body = pl, req_timeout_ms = 10000\<rparr>
      in case f of
           Response code \<Rightarrow> [Called_fetch req f]
         | FetchRejected err \<Rightarrow>
             [Called_fetch req f, Logged_warn (''[pot-api] Webhook delivery failed for '' @ u @ '':'')])"

text \<open>\<^verbatim>\<open>if (callbackUrl) { await pushWebhook(callbackUrl, payload) }\<close>\<close>

definition if_callbackUrl :: "fetched \<Rightarrow> string option \<Rightarrow> 'r payload \<Rightarrow> 'r event list" where
  "if_callbackUrl f cb pl =
     (case cb of None \<Rightarrow> [] | Some u \<Rightarrow> if u = [] then [] else pushWebhook f u pl)"

text \<open>
  The environment of one run: the answers to the calls of \<open>updateJob\<close> in the order
  they are made, the outcome of the verification and of the \<^verbatim>\<open>fetch\<close>.
\<close>

record 'r run_env =
  run_upd1 :: env
  run_upd2 :: env
  run_upd3 :: env
  run_verify :: "'r verified"
  run_fetch :: fetched

type_synonym 'r trace = "('r event \<times> 'r QueueBackend) list"

text \<open>The \<^verbatim>\<open>catch (err)\<close> block of \<open>runJob\<close>.\<close>

definition catch_block ::
  "'r codec \<Rightarrow> env \<Rightarrow> fetched \<Rightarrow> string \<Rightarrow> string option \<Rightarrow> thrown \<Rightarrow> 'r QueueBackend \<Rightarrow>
     'r trace \<times> settled" where
  "catch_block json e f jobId cb err backend =
     (let msg = message err;
          patch = no_patch\<lparr>p_status := Some Error, p_error := Some (Some msg)\<rparr>
      in case updateJob json e jobId patch backend of
           (Inl rej, b) \<Rightarrow> ([(Called_updateJob jobId patch (Inl rej), b)], Rejected rej)
         | (Inr u, b) \<Rightarrow>
             ((Called_updateJob jobId patch (Inr ()), b) #
                map (\<lambda>ev. (ev, b))
                  (if_callbackUrl f cb
                     \<lparr>w_jobId = jobId, w_status = Error, w_result = None, w_error = Some msg\<rparr>),
              Resolved))"

text \<open>
  \<open>runJob\<close>. Each event is paired with the backend as it is once the event is over. A
  rejection of the first \<open>updateJob\<close> leaves the function; one inside the
  \<^verbatim>\<open>try\<close> enters the \<^verbatim>\<open>catch\<close>; one inside the \<^verbatim>\<open>catch\<close> leaves the function.
\<close>

definition runJob ::
  "'r codec \<Rightarrow> 'r run_env \<Rightarrow> string \<Rightarrow> string \<Rightarrow> string \<Rightarrow> Tier \<Rightarrow> (string \<times> string) list \<Rightarrow>
     string option \<Rightarrow> 'r QueueBackend \<Rightarrow> 'r trace \<times> settled" where
  "runJob json re jobId out q tr apiKeys cb backend =
     (let running = no_patch\<lparr>p_status := Some Running\<rparr>
      in case updateJob json (run_upd1 re) jobId running backend of
           (Inl rej, b1) \<Rightarrow> ([(Called_updateJob jobId running (Inl rej), b1)], Rejected rej)
         | (Inr u, b1) \<Rightarrow>
             (let started = [(Called_updateJob jobId running (Inr ()), b1),
                             (Called_verify out tr apiKeys q, b1)]
              in case run_verify re of
                   Hangs \<Rightarrow> (started, Suspended)
                 | Threw err \<Rightarrow>
                     (case catch_block json (run_upd2 re) (run_fetch re) jobId cb err b1 of
                        (t, r) \<Rightarrow> (started @ t, r))
                 | Returned res \<Rightarrow>
                     (let finished = no_patch\<lparr>p_status := Some Done, p_result := Some (Some res)\<rparr>
                      in case updateJob json (run_upd2 re) jobId finished b1 of
                           (Inr u, b2) \<Rightarrow>
                             (started @ (Called_updateJob jobId finished (Inr ()), b2) #
                                map (\<lambda>ev. (ev, b2))
                                  (if_callbackUrl (run_fetch re) cb
                                     \<lparr>w_jobId = jobId, w_status = Done, w_result = Some res,
                                      w_error = None\<rparr>),
                              Resolved)
                         | (Inl rej, b2) \<Rightarrow>
                             (case catch_block json (run_upd3 re) (run_fetch re) jobId cb
                                     (ErrorObject rej) b2 of
                                (t, r) \<Rightarrow>
                                  (started @ (Called_updateJob jobId finished (Inl rej), b2) # t,
                                   r)))))"

section \<open>The keys (config.ts) and the async route (index.ts)\<close>

text \<open>
  \<open>resolveKeys\<close> takes each key from the request when it is there (\<^verbatim>\<open>??\<close> keeps an
  empty string) and from the process environment otherwise; \<open>buildApiKeyRecord\<close> and
  \<open>validateConfig\<close> test the keys for truth, so an empty string counts as missing.
\<close>

record ApiKeys =
  anthropic :: "string option"
  xai :: "string option"
  deepseek :: "string option"
  moonshot :: "string option"

definition nullish :: "'a option \<Rightarrow> 'a option \<Rightarrow> 'a option" where
  "nullish a b = (case a of None \<Rightarrow> b | Some v \<Rightarrow> Some v)"

definition resolveKeys :: "ApiKeys option \<Rightarrow> ApiKeys \<Rightarrow> ApiKeys" where
  "resolveKeys override process_env =
     \<lparr>anthropic = nullish (Option.bind override anthropic) (anthropic process_env),
      xai = nullish (Option.bind override xai) (xai process_env),
      deepseek = nullish (Option.bind override deepseek) (deepseek process_env),
      moonshot = nullish (Option.bind override moonshot) (moonshot process_env)\<rparr>"

definition entry :: "string \<Rightarrow> string option \<Rightarrow> (string \<times> string) list" where
  "entry name v = (case v of None \<Rightarrow> [] | Some s \<Rightarrow> if s = [] then [] else [(name, s)])"

definition buildApiKeyRecord :: "ApiKeys \<Rightarrow> (string \<times> string) list" where
  "buildApiKeyRecord keys =
     entry ''anthropic'' (anthropic keys) @ entry ''xai'' (xai keys)
     @ entry ''deepseek'' (deepseek keys) @ entry ''moonshot'' (moonshot keys)"

definition validateConfig :: "ApiKeys \<Rightarrow> string option" where
  "validateConfig keys =
     (if anthropic keys = None \<or> anthropic keys = Some []
      then Some ''ANTHROPIC_API_KEY is required.'' else None)"

text \<open>
  \<^verbatim>\<open>app.post('/verify/async')\<close>. The body is not validated beyond the two tests:
  every field may be missing. The handler answers 400 before any job exists, or creates
  the job, answers 202 and starts \<open>runJob\<close> without awaiting it: the second component
  is the run, when there is one. A rejection of \<open>createJob\<close> leaves the handler.
\<close>

record body =
  b_output :: "string option"
  b_question :: "string option"
  b_tier :: "Tier option"
  b_callbackUrl :: "string option"
  b_apiKeys :: "ApiKeys option"

datatype accepted = Status400 string | Status202 string string string

definition post_verify_async ::
  "'r codec \<Rightarrow> env \<Rightarrow> 'r run_env \<Rightarrow> ApiKeys \<Rightarrow> body \<Rightarrow> 'r QueueBackend \<Rightarrow>
     (rejection + accepted) \<times> ('r trace \<times> settled) option" where
  "post_verify_async json e re process_env req backend =
     (case (b_output req, b_question req) of
        (Some out, Some q) \<Rightarrow>
          if out = [] \<or> q = []
          then (Inr (Status400 ''output and question are required''), None)
          else
            (let tr = (case b_tier req of None \<Rightarrow> Basic | Some t \<Rightarrow> t);
                 keys = resolveKeys (b_apiKeys req) process_env
             in case validateConfig keys of
                  Some configError \<Rightarrow> (Inr (Status400 configError), None)
                | None \<Rightarrow>
                    (case createJob json e
                            \<lparr>output_text = out, question = q, tier = tr,
                             callbackUrl = b_callbackUrl req\<rparr> backend of
                       (Inl rej, b) \<Rightarrow> (Inl rej, None)
                     | (Inr job, b) \<Rightarrow>
                         (Inr (Status202 (id_job job) ''pending'' (''/jobs/'' @ id_job job)),
                          Some (runJob json re (id_job job) out q tr (buildApiKeyRecord keys)
                                  (b_callbackUrl req) b))))
      | _ \<Rightarrow> (Inr (Status400 ''output and question are required''), None))"

section \<open>Traces\<close>

text \<open>Reading a trace: the statuses written with success, the requests sent, the lines logged.\<close>

fun written :: "'r event list \<Rightarrow> JobStatus list" where
  "written [] = []"
| "written (Called_updateJob i p (Inr u) # evs) =
     (case p_status p of None \<Rightarrow> written evs | Some s \<Rightarrow> s # written evs)"
| "written (ev # evs) = written evs"

fun fetches :: "'r event list \<Rightarrow> 'r request list" where
  "fetches [] = []"
| "fetches (Called_fetch r f # evs) = r # fetches evs"
| "fetches (ev # evs) = fetches evs"

fun warnings :: "'r event list \<Rightarrow> string list" where
  "warnings [] = []"
| "warnings (Logged_warn m # evs) = m # warnings evs"
| "warnings (ev # evs) = warnings evs"

text \<open>An environment in which the client rejects no command.\<close>

definition healthy :: "env \<Rightarrow> bool" where
  "healthy e = (env_fault e = None \<and> env_fault2 e = None)"

definition calm :: env where
  "calm = \<lparr>env_uuid = [], env_now = 0, env_now2 = 0, env_fault = None, env_fault2 = None\<rparr>"

text \<open>What a poll of \<open>jobId\<close> sees when the store answers.\<close>

definition poll :: "'r codec \<Rightarrow> string \<Rightarrow> 'r QueueBackend \<Rightarrow> 'r Job option" where
  "poll json jobId backend =
     (case getJob json calm jobId backend of Inl rej \<Rightarrow> None | Inr found \<Rightarrow> found)"

definition terminal :: "JobStatus \<Rightarrow> bool" where
  "terminal s = (s = Done \<or> s = Error)"

definition result_error_inv :: "'r Job \<Rightarrow> bool" where
  "result_error_inv job =
     (((result job \<noteq> None) = (status job = Done)) \<and> ((error job \<noteq> None) = (status job = Error)))"

section \<open>Sequences of calls to the wrappers\<close>

text \<open>
  A call of a wrapper with the answers of its environment, and its reply: the record
  that the caller reads in the result at the moment the call returns, or the rejection.
\<close>

datatype 'r op = CreateJob JobInput | GetJob string | UpdateJob string "'r JobPatch"

datatype 'r reply = Created "'r Job" | Got "'r Job option" | Updated | Failed rejection

fun facade_step :: "'r codec \<Rightarrow> env \<times> 'r op \<Rightarrow> 'r QueueBackend \<Rightarrow> 'r reply \<times> 'r QueueBackend" where
  "facade_step json (e, CreateJob inp) backend =
     (case createJob json e inp backend of
        (Inl rej, b) \<Rightarrow> (Failed rej, b)
      | (Inr job, b) \<Rightarrow> (Created job, b))"
| "facade_step json (e, GetJob jobId) backend =
     (case getJob json e jobId backend of
        Inl rej \<Rightarrow> (Failed rej, backend)
      | Inr found \<Rightarrow> (Got found, backend))"
| "facade_step json (e, UpdateJob jobId patch) backend =
     (case updateJob json e jobId patch backend of
        (Inl rej, b) \<Rightarrow> (Failed rej, b)
      | (Inr u, b) \<Rightarrow> (Updated, b))"

fun facade_run :: "'r codec \<Rightarrow> (env \<times> 'r op) list \<Rightarrow> 'r QueueBackend \<Rightarrow> 'r reply list" where
  "facade_run json [] backend = []"
| "facade_run json (c # cs) backend =
     (case facade_step json c backend of (r, b) \<Rightarrow> r # facade_run json cs b)"

fun keeps_id :: "'r op \<Rightarrow> bool" where
  "keeps_id (UpdateJob jobId patch) = (p_id patch = None)"
| "keeps_id other = True"

text \<open>
  The same calls on the in-memory backend with its objects. A reply is a reference;
  \<open>live_run\<close> keeps with each reply the memory at the moment the call returns, and
  \<open>read_reply\<close> is what a caller reads through a reply in a given memory, at that
  moment or later. The replies of \<open>facade_step\<close> above are the records read at the
  moment the call returns.
\<close>

datatype live_reply = Created_at nat | Got_at "nat option" | Updated_live

fun live_step :: "env \<times> 'r op \<Rightarrow> 'r memory \<Rightarrow> live_reply \<times> 'r memory" where
  "live_step (e, CreateJob inp) m =
     (case Live_createJob (env_uuid e) (env_now e) (env_now2 e) inp m of
        (a, m') \<Rightarrow> (Created_at a, m'))"
| "live_step (e, GetJob jobId) m = (Got_at (Live_getJob jobId m), m)"
| "live_step (e, UpdateJob jobId patch) m = (Updated_live, Live_updateJob (env_now e) jobId patch m)"

fun live_run :: "(env \<times> 'r op) list \<Rightarrow> 'r memory \<Rightarrow> (live_reply \<times> 'r memory) list" where
  "live_run [] m = []"
| "live_run (c # cs) m = (case live_step c m of (r, m') \<Rightarrow> (r, m') # live_run cs m')"

fun read_reply :: "'r memory \<Rightarrow> live_reply \<Rightarrow> 'r reply option" where
  "read_reply m (Created_at a) = map_option Created (objects m a)"
| "read_reply m (Got_at None) = Some (Got None)"
| "read_reply m (Got_at (Some a)) = map_option (\<lambda>job. Got (Some job)) (objects m a)"
| "read_reply m Updated_live = Some Updated"

section \<open>Reading a run\<close>

text \<open>
  The in-memory backend answers every call; the durable one answers a call when the
  client rejects none of its commands.
\<close>

definition answers :: "'r QueueBackend \<Rightarrow> env \<Rightarrow> bool" where
  "answers backend e = (case backend of InMemory store \<Rightarrow> True | BullMQ b \<Rightarrow> healthy e)"

text \<open>
  The statuses that polls of \<open>k\<close> see after each event of a trace, and whether a list
  of observations follows \<open>pending \<rightarrow> running \<rightarrow> done | error\<close> from the status \<open>s\<close>: each
  observation repeats the last one or takes one step of the state machine, and the
  record is always found.
\<close>

definition observed :: "'r codec \<Rightarrow> string \<Rightarrow> 'r trace \<Rightarrow> JobStatus option list" where
  "observed json k t = map (\<lambda>(ev, b). map_option status (poll json k b)) t"

fun in_order :: "JobStatus \<Rightarrow> JobStatus option list \<Rightarrow> bool" where
  "in_order s [] = True"
| "in_order s (None # xs) = False"
| "in_order s (Some x # xs) =
     ((x = s \<or> (s = Pending \<and> x = Running) \<or> (s = Running \<and> terminal x)) \<and> in_order x xs)"

text \<open>The events before the call of the verification engine, if it is called.\<close>

fun until_verify :: "'r event list \<Rightarrow> 'r event list option" where
  "until_verify [] = None"
| "until_verify (Called_verify out tr apiKeys q # evs) = Some []"
| "until_verify (ev # evs) = map_option ((#) ev) (until_verify evs)"

text \<open>
  A \<^verbatim>\<open>fetch\<close> and a log line leave the backend as the event before them left it
  (\<open>b\<close> is the backend before the first event).
\<close>

fun delivery_keeps_store :: "'r QueueBackend \<Rightarrow> 'r trace \<Rightarrow> bool" where
  "delivery_keeps_store b [] = True"
| "delivery_keeps_store b ((Called_fetch rq f, b') # t) = (b' = b \<and> delivery_keeps_store b' t)"
| "delivery_keeps_store b ((Logged_warn m, b') # t) = (b' = b \<and> delivery_keeps_store b' t)"
| "delivery_keeps_store b ((ev, b') # t) = delivery_keeps_store b' t"

text \<open>
  The status that the store must show after an event, given the status \<open>s\<close> before it:
  the status of the patch after a call of \<open>updateJob\<close> that resolved, and \<open>s\<close> after
  anything else; and the statuses after each event of a list, from \<open>s\<close>. A run whose
  polls see exactly these statuses has brought every write that resolved to the store,
  and nothing else has changed the status.
\<close>

fun after_event :: "'r event \<Rightarrow> JobStatus \<Rightarrow> JobStatus" where
  "after_event (Called_updateJob i p (Inr u)) s = (case p_status p of None \<Rightarrow> s | Some s' \<Rightarrow> s')"
| "after_event ev s = s"

fun statuses_after :: "JobStatus \<Rightarrow> 'r event list \<Rightarrow> JobStatus list" where
  "statuses_after s [] = []"
| "statuses_after s (ev # evs) = after_event ev s # statuses_after (after_event ev s) evs"

text \<open>
  The invariant of a run on the job \<open>k\<close>: after every event the record is found under
  \<open>k\<close>, carries the id \<open>k\<close>, has a result exactly when it is done and an error
  exactly when it failed, and its status is the one the event leaves and is in order.
\<close>

fun follows :: "'r codec \<Rightarrow> string \<Rightarrow> JobStatus \<Rightarrow> 'r trace \<Rightarrow> bool" where
  "follows json k s [] = True"
| "follows json k s ((ev, b) # t) =
     (case poll json k b of
        None \<Rightarrow> False
      | Some j \<Rightarrow>
          id_job j = k \<and> result_error_inv j
        \<and> status j = after_event ev s
        \<and> (status j = s \<or> (s = Pending \<and> status j = Running) \<or> (s = Running \<and> terminal (status j)))
        \<and> follows json k (status j) t)"

section \<open>The two backends side by side\<close>

text \<open>
  A durable backend simulates an in-memory store when it is ready, a poll of every id
  finds what the store holds, and every record is stored under its own id.
\<close>

definition sim :: "'r codec \<Rightarrow> 'r store \<Rightarrow> BullMQBackend \<Rightarrow> bool" where
  "sim json store b =
     (ready b = None
      \<and> (\<forall>k. poll json k (BullMQ b) = store k)
      \<and> (\<forall>k j. store k = Some j \<longrightarrow> id_job j = k))"

section \<open>A concrete wire format\<close>

text \<open>
  A codec over records whose result is a text: lengths in unary, strings prefixed by
  their length, one letter for a status or a tier. It is not JSON; it is one instance
  of the parameter for which \<open>codec_ok\<close> holds, so that the durable backend can be run
  on concrete stores.
\<close>

definition enc_nat :: "nat \<Rightarrow> string" where
  "enc_nat n = replicate n (CHR ''1'') @ ''0''"

definition dec_nat :: "string \<Rightarrow> nat \<times> string" where
  "dec_nat s = (length (takeWhile (\<lambda>c. c = CHR ''1'') s), tl (dropWhile (\<lambda>c. c = CHR ''1'') s))"

definition enc_int :: "int \<Rightarrow> string" where
  "enc_int i = (if i < 0 then CHR ''-'' else CHR ''+'') # enc_nat (nat \<bar>i\<bar>)"

definition dec_int :: "string \<Rightarrow> int \<times> string" where
  "dec_int s = (case dec_nat (tl s) of (n, r) \<Rightarrow> (if hd s = CHR ''-'' then - int n else int n, r))"

definition enc_str :: "string \<Rightarrow> string" where
  "enc_str s = enc_nat (length s) @ s"

definition dec_str :: "string \<Rightarrow> string \<times> string" where
  "dec_str s = (case dec_nat s of (n, r) \<Rightarrow> (take n r, drop n r))"

definition enc_opt :: "string option \<Rightarrow> string" where
  "enc_opt v = (case v of None \<Rightarrow> ''N'' | Some s \<Rightarrow> CHR ''S'' # enc_str s)"

definition dec_opt :: "string \<Rightarrow> string option \<times> string" where
  "dec_opt s = (if hd s = CHR ''S'' then (case dec_str (tl s) of (v, r) \<Rightarrow> (Some v, r)) else (None, tl s))"

definition enc_status :: "JobStatus \<Rightarrow> string" where
  "enc_status st = (case st of Pending \<Rightarrow> ''p'' | Running \<Rightarrow> ''r'' | Done \<Rightarrow> ''d'' | Error \<Rightarrow> ''e'')"

definition dec_status :: "string \<Rightarrow> JobStatus \<times> string" where
  "dec_status s = (if hd s = CHR ''p'' then Pending else if hd s = CHR ''r'' then Running
                   else if hd s = CHR ''d'' then Done else Error, tl s)"

definition enc_tier :: "Tier \<Rightarrow> string" where
  "enc_tier t = (case t of Basic \<Rightarrow> ''b'' | Pro \<Rightarrow> ''P'')"

definition dec_tier :: "string \<Rightarrow> Tier \<times> string" where
  "dec_tier s = (if hd s = CHR ''b'' then Basic else Pro, tl s)"

definition wire_stringify :: "string Job \<Rightarrow> string" where
  "wire_stringify job =
     CHR ''{'' # enc_str (id_job job) @ enc_status (status job) @ enc_int (createdAt job)
       @ enc_int (updatedAt job) @ enc_str (output_text (input job)) @ enc_str (question (input job))
       @ enc_tier (tier (input job)) @ enc_opt (callbackUrl (input job))
       @ enc_opt (result job) @ enc_opt (error job)"

definition wire_decode :: "string \<Rightarrow> string Job" where
  "wire_decode s0 =
     (case dec_str s0 of (i, s1) \<Rightarrow>
      case dec_status s1 of (st, s2) \<Rightarrow>
      case dec_int s2 of (c, s3) \<Rightarrow>
      case dec_int s3 of (u, s4) \<Rightarrow>
      case dec_str s4 of (out, s5) \<Rightarrow>
      case dec_str s5 of (q, s6) \<Rightarrow>
      case dec_tier s6 of (t, s7) \<Rightarrow>
      case dec_opt s7 of (cb, s8) \<Rightarrow>
      case dec_opt s8 of (res, s9) \<Rightarrow>
      case dec_opt s9 of (err, s10) \<Rightarrow>
        \<lparr>id_job = i, status = st, createdAt = c, updatedAt = u,
         input = \<lparr>output_text = out, question = q, tier = t, callbackUrl = cb\<rparr>,
         result = res, error = err\<rparr>)"

definition wire_parse :: "string \<Rightarrow> string Job option" where
  "wire_parse s = (case s of [] \<Rightarrow> None | c # r \<Rightarrow> if c = CHR ''{'' then Some (wire_decode r) else None)"

definition wire :: "string codec" where
  "wire = \<lparr>stringify = wire_stringify, parse = wire_parse\<rparr>"

section \<open>Concrete inputs\<close>

text \<open>The timer of the in-memory backend fires at multiples of its interval.\<close>

definition ticks :: "timestamp \<Rightarrow> nat \<Rightarrow> timestamp list" where
  "ticks t0 n = map (\<lambda>i. t0 + int i * sweep_interval_ms) [1..<Suc n]"

text \<open>A request body, and a durable backend that is ready and empty.\<close>

definition eiffel :: JobInput where
  "eiffel = \<lparr>output_text = ''The Eiffel Tower is 330m tall.'',
              question = ''How tall is the Eiffel Tower?'', tier = Basic, callbackUrl = None\<rparr>"

definition up :: BullMQBackend where
  "up = \<lparr>ready = None, client = Map.empty\<rparr>"

text \<open>The keys of the process and a request to the async route.\<close>

definition process_keys :: ApiKeys where
  "process_keys = \<lparr>anthropic = Some ''sk-ant-test'', xai = None, deepseek = None, moonshot = None\<rparr>"

definition eiffel_request :: body where
  "eiffel_request = \<lparr>b_output = Some ''The Eiffel Tower is 330m tall.'',
                      b_question = Some ''How tall is the Eiffel Tower?'', b_tier = None,
                      b_callbackUrl = Some ''https://agent.example/webhook'', b_apiKeys = None\<rparr>"

text \<open>An environment without faults at clock reading \<open>t\<close>, and a run in such environments.\<close>

definition clock :: "timestamp \<Rightarrow> env" where
  "clock t = calm\<lparr>env_uuid := ''a'', env_now := t, env_now2 := t\<rparr>"

definition smooth :: "string verified \<Rightarrow> fetched \<Rightarrow> string run_env" where
  "smooth v f = \<lparr>run_upd1 = clock 2000, run_upd2 = clock 3000, run_upd3 = clock 4000,
                 run_verify = v, run_fetch = f\<rparr>"

text \<open>
  A second request body, and the durable backend after \<open>createJob\<close> of \<open>a\<close> and
  \<open>b\<close> and an update of \<open>a\<close> whose patch names the id \<open>b\<close>.
\<close>

definition water :: JobInput where
  "water = \<lparr>output_text = ''Water boils at 100 degrees Celsius.'',
             question = ''When does water boil?'', tier = Pro, callbackUrl = None\<rparr>"

definition misfiled :: BullMQBackend where
  "misfiled =
     snd (BullMQ_updateJob wire 3 None None ''a'' (no_patch\<lparr>p_id := Some ''b''\<rparr>)
       (snd (BullMQ_createJob wire ''b'' 2 2 None water
         (snd (BullMQ_createJob wire ''a'' 1 1 None eiffel up)))))"

text \<open>
  A run in which the engine returns, the write of \<open>done\<close> is rejected by the client
  and so is the read of the write of \<open>error\<close>.
\<close>

definition stormy :: "string run_env" where
  "stormy = \<lparr>run_upd1 = clock 2000,
              run_upd2 = (clock 3000)\<lparr>env_fault2 := Some ''Connection is closed.''\<rparr>,
              run_upd3 = (clock 4000)\<lparr>env_fault := Some ''Connection is closed.''\<rparr>,
              run_verify = Returned ''verified'', run_fetch = Response 200\<rparr>"

section \<open>Properties of the wire format\<close>

lemma dec_nat_enc [simp]: "dec_nat (enc_nat n @ r) = (n, r)"
  by (simp add: dec_nat_def enc_nat_def takeWhile_append dropWhile_append)

lemma dec_int_enc [simp]: "dec_int (enc_int i @ r) = (i, r)"
  by (simp add: dec_int_def enc_int_def)

lemma dec_str_enc [simp]: "dec_str (enc_str s @ r) = (s, r)"
  by (simp add: dec_str_def enc_str_def)

lemma dec_opt_enc [simp]: "dec_opt (enc_opt v @ r) = (v, r)"
  by (simp add: dec_opt_def enc_opt_def split: option.splits)

lemma dec_status_enc [simp]: "dec_status (enc_status s @ r) = (s, r)"
  by (simp add: dec_status_def enc_status_def split: JobStatus.splits)

lemma dec_tier_enc [simp]: "dec_tier (enc_tier s @ r) = (s, r)"
  by (simp add: dec_tier_def enc_tier_def split: Tier.splits)

lemma dec_opt_enc0: "dec_opt (enc_opt v) = (v, [])"
  using dec_opt_enc [of v "[]"] by simp

lemma wire_decode_stringify: "wire_parse (wire_stringify job) = Some job"
  by (simp add: wire_parse_def wire_stringify_def wire_decode_def dec_opt_enc0)

lemma codec_ok_wire: "codec_ok wire"
  by (simp add: codec_ok_def wire_def wire_decode_stringify) (simp add: wire_stringify_def)

section \<open>The store operations\<close>

lemma key_inj: "key a = key b \<Longrightarrow> a = b"
  by (simp add: key_def)

lemma InMemory_updateJob_existing:
  "store jobId = Some job \<Longrightarrow>
   InMemory_getJob jobId (InMemory_updateJob now jobId patch store) = Some (assign job patch now)"
  by (simp add: InMemory_updateJob_def InMemory_getJob_def)

lemma BullMQ_getJob_stored:
  assumes "codec_ok json" and "ready b = None"
    and "client b (key jobId) = Some (stringify json job, ttl)"
  shows "BullMQ_getJob json None jobId b = Inr (Some job)"
  using assms by (simp add: BullMQ_getJob_def client_get_def codec_ok_def)

lemma BullMQ_getJob_ready: "BullMQ_getJob json fault jobId b = Inr found \<Longrightarrow> ready b = None"
  by (simp add: BullMQ_getJob_def split: option.splits)

lemma BullMQ_updateJob_existing:
  assumes "BullMQ_getJob json None jobId b = Inr (Some job)"
  shows "BullMQ_updateJob json now None None jobId patch b =
           (Inr (), b\<lparr>client := (client b)(key (id_job job) \<mapsto>
                        (stringify json (assign job patch now), 86400))\<rparr>)"
  using assms BullMQ_getJob_ready [OF assms]
  by (simp add: BullMQ_updateJob_def client_set_def)

lemma InMemory_createJob_eq:
  "InMemory_createJob uuid now1 now2 inp store =
     (\<lparr>id_job = uuid, status = Pending, createdAt = now1, updatedAt = now2,
       input = inp, result = None, error = None\<rparr>,
      store(uuid \<mapsto> \<lparr>id_job = uuid, status = Pending, createdAt = now1, updatedAt = now2,
       input = inp, result = None, error = None\<rparr>))"
  by (simp add: InMemory_createJob_def Let_def)

lemma BullMQ_createJob_ok:
  "ready b = None \<Longrightarrow>
   BullMQ_createJob json uuid now1 now2 None inp b =
     (Inr \<lparr>id_job = uuid, status = Pending, createdAt = now1, updatedAt = now2,
       input = inp, result = None, error = None\<rparr>,
      b\<lparr>client := (client b)(key uuid \<mapsto>
           (stringify json \<lparr>id_job = uuid, status = Pending, createdAt = now1, updatedAt = now2,
              input = inp, result = None, error = None\<rparr>, 86400))\<rparr>)"
  by (simp add: BullMQ_createJob_def client_set_def Let_def)

lemma key_a_b: "key ''a'' \<noteq> key ''b''" "key ''b'' \<noteq> key ''a''"
  by (simp_all add: key_def)

lemma misfiled_eq:
  "misfiled =
     \<lparr>ready = None,
      client = [key ''a'' \<mapsto>
                  (stringify wire \<lparr>id_job = ''b'', status = Pending, createdAt = 1, updatedAt = 3,
                     input = eiffel, result = None :: string option, error = None\<rparr>, 86400),
                key ''b'' \<mapsto>
                  (stringify wire \<lparr>id_job = ''b'', status = Pending, createdAt = 2, updatedAt = 2,
                     input = water, result = None :: string option, error = None\<rparr>, 86400)]\<rparr>"
proof -
  let ?ja = "\<lparr>id_job = ''a'', status = Pending, createdAt = 1, updatedAt = 1,
                     input = eiffel, result = None :: string option, error = None\<rparr>"
  let ?jb = "\<lparr>id_job = ''b'', status = Pending, createdAt = 2, updatedAt = 2,
                     input = water, result = None :: string option, error = None\<rparr>"
  let ?b2 = "\<lparr>ready = None, client = [key ''a'' \<mapsto> (stringify wire ?ja, 86400),
                                         key ''b'' \<mapsto> (stringify wire ?jb, 86400)]\<rparr>"
  have c: "snd (BullMQ_createJob wire ''b'' 2 2 None water
         (snd (BullMQ_createJob wire ''a'' 1 1 None eiffel up))) = ?b2"
    by (simp add: BullMQ_createJob_ok up_def)
  have g: "BullMQ_getJob wire None ''a'' ?b2 = Inr (Some ?ja)"
    by (rule BullMQ_getJob_stored [OF codec_ok_wire]) (simp_all add: key_a_b)
  show ?thesis
    unfolding misfiled_def c
    by (simp add: BullMQ_updateJob_existing [OF g] assign_def no_patch_def fun_upd_twist key_a_b)
qed

lemma BullMQ_getJob_other:
  "k' \<noteq> key jobId \<Longrightarrow>
   BullMQ_getJob json f jobId (b\<lparr>client := (client b)(k' \<mapsto> v)\<rparr>) = BullMQ_getJob json f jobId b"
  by (simp add: BullMQ_getJob_def client_get_def split: option.splits)

section \<open>Updating an unknown id\<close>

text \<open>
  C4, as the code has it. \<open>updateJob\<close> on an id that the store does not hold creates
  no record and leaves the store as it was, in both backends. The in-memory call takes
  the branch where \<^verbatim>\<open>store.get(id)\<close> is undefined and cannot raise. In the durable
  backend, whatever the client answers, the database is left untouched and the call ends
  as its read of the key ended, adding no error of its own: it resolves when the backend
  is ready and the read is answered, and rejects when the read is rejected. Both
  wrappers are covered, the in-memory one through \<open>updateJob\<close> itself.
\<close>

theorem updateJob_unknown_id_noop:
  assumes "store jobId = None" and "client b (key jobId) = None"
  shows "InMemory_updateJob now jobId patch store = store
       \<and> updateJob json e jobId patch (InMemory store) = (Inr (), InMemory store)
       \<and> snd (BullMQ_updateJob json now fault_get fault_set jobId patch b) = b
       \<and> fst (BullMQ_updateJob json now fault_get fault_set jobId patch b)
           = map_sum id (\<lambda>found. ()) (BullMQ_getJob json fault_get jobId b)
       \<and> (ready b = None \<longrightarrow>
            BullMQ_updateJob json now None fault_set jobId patch b = (Inr (), b)
          \<and> updateJob json (e\<lparr>env_fault := None\<rparr>) jobId patch (BullMQ b) = (Inr (), BullMQ b))"
  using assms
  by (simp add: InMemory_updateJob_def updateJob_def BullMQ_updateJob_def BullMQ_getJob_def
      client_get_def split: option.splits)

theorem updateJob_unknown_id_noop_witness:
  "InMemory_updateJob 5 ''a'' (no_patch\<lparr>p_status := Some Running\<rparr>) (Map.empty :: unit store)
     = Map.empty
   \<and> BullMQ_updateJob \<lparr>stringify = (\<lambda>j :: unit Job. ''{}''), parse = (\<lambda>s. None)\<rparr> 5 None None ''a''
       (no_patch\<lparr>p_status := Some Running\<rparr>) \<lparr>ready = None, client = Map.empty\<rparr>
     = (Inr (), \<lparr>ready = None, client = Map.empty\<rparr>)"
  using updateJob_unknown_id_noop [of "Map.empty :: unit store" "''a''"
      "\<lparr>ready = None, client = Map.empty\<rparr>" 5 "no_patch\<lparr>p_status := Some Running\<rparr>"
      "\<lparr>stringify = (\<lambda>j :: unit Job. ''{}''), parse = (\<lambda>s. None)\<rparr>" _ _ None]
  by simp

text \<open>
  In the durable backend a read that the client rejects is raised to the caller, also
  for an id that the store does not hold.
\<close>

theorem updateJob_unknown_id_rejects_counterexample:
  "client up (key ''zz'') = None
   \<and> BullMQ_updateJob wire 5 (Some ''Connection is closed.'') None ''zz''
       (no_patch\<lparr>p_status := Some Running\<rparr>) up
     = (Inl ''Connection is closed.'', up)"
  by (simp add: BullMQ_updateJob_def BullMQ_getJob_def client_get_def up_def)

section \<open>Creating a job\<close>

text \<open>
  C1, as the code has it. \<open>createJob\<close> returns the record whose id is the value of
  the UUID generator, with status pending, no result and no error, \<open>createdAt\<close> the
  first clock reading and \<open>updatedAt\<close> the second one. The record is stored under its
  id without touching any other key, and \<open>getJob\<close> with that id returns it. The id
  is new whenever the generator's value is: the code does not check it against the
  store. The durable backend does the same once it is ready and its write is answered.
\<close>

theorem createJob_creates_pending_record:
  assumes "codec_ok json" and "ready b = None"
    and "job = \<lparr>id_job = uuid, status = Pending, createdAt = now1, updatedAt = now2,
                 input = inp, result = None, error = None\<rparr>"
  shows "fst (InMemory_createJob uuid now1 now2 inp store) = job
       \<and> InMemory_getJob (id_job job) (snd (InMemory_createJob uuid now1 now2 inp store)) = Some job
       \<and> (\<forall>k. k \<noteq> uuid \<longrightarrow> snd (InMemory_createJob uuid now1 now2 inp store) k = store k)
       \<and> fst (BullMQ_createJob json uuid now1 now2 None inp b) = Inr job
       \<and> BullMQ_getJob json None (id_job job) (snd (BullMQ_createJob json uuid now1 now2 None inp b))
           = Inr (Some job)
       \<and> (\<forall>k. k \<noteq> key uuid \<longrightarrow>
             client (snd (BullMQ_createJob json uuid now1 now2 None inp b)) k = client b k)
       \<and> (uuid \<notin> issued \<longrightarrow> id_job job \<notin> issued)"
  using assms
  by (simp add: InMemory_createJob_eq InMemory_getJob_def BullMQ_createJob_ok BullMQ_getJob_stored)

theorem createJob_creates_pending_record_witness:
  "fst (InMemory_createJob ''a'' 1000 1001 eiffel (Map.empty :: string store))
     = \<lparr>id_job = ''a'', status = Pending, createdAt = 1000, updatedAt = 1001,
        input = eiffel, result = None, error = None\<rparr>
   \<and> BullMQ_getJob wire None ''a'' (snd (BullMQ_createJob wire ''a'' 1000 1001 None eiffel up))
     = Inr (Some \<lparr>id_job = ''a'', status = Pending, createdAt = 1000, updatedAt = 1001,
        input = eiffel, result = None, error = None\<rparr>)
   \<and> ''a'' \<notin> {''b'', ''c''}"
  using createJob_creates_pending_record [where json = wire and b = up and uuid = "''a''"
      and ?now1.0 = 1000 and ?now2.0 = 1001 and inp = eiffel and store = Map.empty
      and issued = "{''b'', ''c''}", OF codec_ok_wire]
  by (simp add: up_def)

text \<open>
  When the generator repeats a value and the clock ticks between the two readings, the
  new job has the id of the earlier one and \<open>createdAt\<close> differs from \<open>updatedAt\<close>.
\<close>

theorem createJob_counterexample:
  "id_job (fst (InMemory_createJob ''a'' 2000 2001 eiffel
       (snd (InMemory_createJob ''a'' 1000 1000 eiffel (Map.empty :: string store)))))
     = id_job (fst (InMemory_createJob ''a'' 1000 1000 eiffel (Map.empty :: string store)))
   \<and> createdAt (fst (InMemory_createJob ''a'' 2000 2001 eiffel
       (snd (InMemory_createJob ''a'' 1000 1000 eiffel (Map.empty :: string store)))))
     \<noteq> updatedAt (fst (InMemory_createJob ''a'' 2000 2001 eiffel
       (snd (InMemory_createJob ''a'' 1000 1000 eiffel (Map.empty :: string store)))))"
  by (simp add: InMemory_createJob_eq)

section \<open>The update time\<close>

text \<open>
  C10, as the code has it. In both backends \<open>updateJob\<close> sets \<open>updatedAt\<close> of the
  record it writes to the clock reading of the update itself, whatever the patch holds.
  In the in-memory backend that record is the one under the id asked for. In the durable
  backend it is written under the key of the id field of the record that was read: for a
  record that carries the id it is stored under, the record under the id asked for has
  the update time after the call; for a record that carries another id, the record under
  the id asked for is left as it was, with its old \<open>updatedAt\<close>.
\<close>

theorem updateJob_updatedAt_is_now:
  assumes "store jobId = Some job"
    and "BullMQ_getJob json None jobId b = Inr (Some djob)" and "codec_ok json"
  shows "map_option updatedAt (InMemory_getJob jobId (InMemory_updateJob now jobId patch store))
           = Some now
       \<and> fst (BullMQ_updateJob json now None None jobId patch b) = Inr ()
       \<and> map_sum id (map_option updatedAt)
            (BullMQ_getJob json None (id_job djob)
               (snd (BullMQ_updateJob json now None None jobId patch b)))
           = Inr (Some now)
       \<and> (id_job djob = jobId \<longrightarrow>
            map_sum id (map_option updatedAt)
              (BullMQ_getJob json None jobId
                 (snd (BullMQ_updateJob json now None None jobId patch b)))
             = Inr (Some now))
       \<and> (id_job djob \<noteq> jobId \<longrightarrow>
            BullMQ_getJob json None jobId (snd (BullMQ_updateJob json now None None jobId patch b))
             = Inr (Some djob))"
proof -
  have r: "ready b = None"
    by (rule BullMQ_getJob_ready [OF assms(2)])
  have k: "id_job djob \<noteq> jobId \<longrightarrow> key (id_job djob) \<noteq> key jobId"
    using key_inj by blast
  have 1: "map_option updatedAt (InMemory_getJob jobId (InMemory_updateJob now jobId patch store))
           = Some now"
    by (simp add: InMemory_updateJob_existing assms(1) assign_def)
  have 2: "fst (BullMQ_updateJob json now None None jobId patch b) = Inr ()"
    by (simp add: BullMQ_updateJob_existing [OF assms(2)])
  have 3: "map_sum id (map_option updatedAt)
            (BullMQ_getJob json None (id_job djob)
               (snd (BullMQ_updateJob json now None None jobId patch b)))
           = Inr (Some now)"
    using assms(3) r
    by (simp add: BullMQ_updateJob_existing [OF assms(2)] BullMQ_getJob_stored assign_def)
  from 3 have 4: "id_job djob = jobId \<longrightarrow>
            map_sum id (map_option updatedAt)
              (BullMQ_getJob json None jobId
                 (snd (BullMQ_updateJob json now None None jobId patch b)))
             = Inr (Some now)"
    by auto
  have 5: "id_job djob \<noteq> jobId \<longrightarrow>
            BullMQ_getJob json None jobId (snd (BullMQ_updateJob json now None None jobId patch b))
             = Inr (Some djob)"
    using k assms(2)
    by (simp add: BullMQ_updateJob_existing [OF assms(2)] BullMQ_getJob_other)
  from 1 2 3 4 5 show ?thesis
    by (intro conjI)
qed

theorem updateJob_updatedAt_is_now_witness:
  "map_option updatedAt
     (InMemory_getJob ''a''
        (InMemory_updateJob 9 ''a'' (no_patch\<lparr>p_updatedAt := Some 3\<rparr>)
           (snd (InMemory_createJob ''a'' 1 1 eiffel (Map.empty :: string store))))) = Some 9
   \<and> map_sum id (map_option updatedAt)
       (BullMQ_getJob wire None ''a''
          (snd (BullMQ_updateJob wire 9 None None ''a'' (no_patch\<lparr>p_updatedAt := Some 3\<rparr>)
             (snd (BullMQ_createJob wire ''a'' 1 1 None eiffel up))))) = Inr (Some 9)"
proof -
  let ?job = "\<lparr>id_job = ''a'', status = Pending, createdAt = 1, updatedAt = 1,
                 input = eiffel, result = None, error = None\<rparr> :: string Job"
  have 1: "snd (InMemory_createJob ''a'' 1 1 eiffel (Map.empty :: string store)) ''a'' = Some ?job"
    by (simp add: InMemory_createJob_eq)
  have 2: "BullMQ_getJob wire None ''a'' (snd (BullMQ_createJob wire ''a'' 1 1 None eiffel up))
             = Inr (Some ?job)"
    by (simp add: BullMQ_createJob_ok BullMQ_getJob_stored codec_ok_wire up_def)
  from updateJob_updatedAt_is_now [where store = "snd (InMemory_createJob ''a'' 1 1 eiffel Map.empty)"
      and jobId = "''a''" and job = ?job and djob = ?job and json = wire and now = 9
      and b = "snd (BullMQ_createJob wire ''a'' 1 1 None eiffel up)"
      and patch = "no_patch\<lparr>p_updatedAt := Some 3\<rparr>"] 1 2 codec_ok_wire
  show ?thesis by simp
qed

text \<open>
  After a patch that named the id \<open>b\<close>, an update of \<open>a\<close> at time 4 resolves and
  the record under \<open>a\<close> still has the \<open>updatedAt\<close> of time 3.
\<close>

theorem updateJob_updatedAt_stale_counterexample:
  "map_sum id (map_option updatedAt) (BullMQ_getJob wire None ''a'' misfiled) = Inr (Some 3)
   \<and> fst (BullMQ_updateJob wire 4 None None ''a'' (no_patch\<lparr>p_status := Some Running\<rparr>) misfiled)
      = Inr ()
   \<and> map_sum id (map_option updatedAt)
       (BullMQ_getJob wire None ''a''
          (snd (BullMQ_updateJob wire 4 None None ''a'' (no_patch\<lparr>p_status := Some Running\<rparr>)
             misfiled))) = Inr (Some 3)"
proof -
  let ?ja = "\<lparr>id_job = ''b'', status = Pending, createdAt = 1, updatedAt = 3,
                     input = eiffel, result = None :: string option, error = None\<rparr>"
  have g: "BullMQ_getJob wire None ''a'' misfiled = Inr (Some ?ja)"
    by (rule BullMQ_getJob_stored [OF codec_ok_wire]) (simp_all add: misfiled_eq key_a_b)
  show ?thesis
    by (simp add: g BullMQ_updateJob_existing [OF g] BullMQ_getJob_other key_a_b)
qed

section \<open>What an update changes\<close>

text \<open>
  C8, as the code has it. \<open>updateJob\<close> writes one record: the record it read with
  the fields of the patch written over it and \<open>updatedAt\<close> set to the update time.
  Every field other than \<open>updatedAt\<close>, \<open>createdAt\<close> and \<open>input\<close> included, keeps
  its value when the patch does not name it and takes the value of the patch when it
  does. The in-memory backend puts the record under the id asked for and changes no other
  entry. The durable backend puts it under the key of the id field of the record that was
  read and changes no other key: for a record that carries the id it is stored under this
  is the record of the id asked for; for a record that carries another id, the record
  under the id asked for is left as it was and the key of the other id is overwritten.
\<close>

theorem updateJob_frame:
  assumes "store jobId = Some job"
    and "BullMQ_getJob json None jobId b = Inr (Some djob)" and "codec_ok json"
  shows "InMemory_getJob jobId (InMemory_updateJob now jobId patch store) = Some (assign job patch now)
       \<and> (\<forall>k. k \<noteq> jobId \<longrightarrow> InMemory_updateJob now jobId patch store k = store k)
       \<and> BullMQ_getJob json None (id_job djob)
            (snd (BullMQ_updateJob json now None None jobId patch b))
           = Inr (Some (assign djob patch now))
       \<and> (\<forall>k. k \<noteq> key (id_job djob) \<longrightarrow>
            client (snd (BullMQ_updateJob json now None None jobId patch b)) k = client b k)
       \<and> (id_job djob = jobId \<longrightarrow>
            BullMQ_getJob json None jobId (snd (BullMQ_updateJob json now None None jobId patch b))
             = Inr (Some (assign djob patch now)))
       \<and> (id_job djob \<noteq> jobId \<longrightarrow>
            BullMQ_getJob json None jobId (snd (BullMQ_updateJob json now None None jobId patch b))
             = Inr (Some djob))
       \<and> (\<forall>j :: 'r Job.
            createdAt (assign j patch now)
              = (case p_createdAt patch of None \<Rightarrow> createdAt j | Some v \<Rightarrow> v)
          \<and> input (assign j patch now) = (case p_input patch of None \<Rightarrow> input j | Some v \<Rightarrow> v)
          \<and> id_job (assign j patch now) = (case p_id patch of None \<Rightarrow> id_job j | Some v \<Rightarrow> v)
          \<and> status (assign j patch now) = (case p_status patch of None \<Rightarrow> status j | Some v \<Rightarrow> v)
          \<and> result (assign j patch now) = (case p_result patch of None \<Rightarrow> result j | Some v \<Rightarrow> v)
          \<and> error (assign j patch now) = (case p_error patch of None \<Rightarrow> error j | Some v \<Rightarrow> v)
          \<and> updatedAt (assign j patch now) = now)"
proof -
  have r: "ready b = None"
    by (rule BullMQ_getJob_ready [OF assms(2)])
  have k: "id_job djob \<noteq> jobId \<longrightarrow> key (id_job djob) \<noteq> key jobId"
    using key_inj by blast
  have 1: "InMemory_getJob jobId (InMemory_updateJob now jobId patch store) = Some (assign job patch now)"
    by (simp add: InMemory_updateJob_existing assms(1))
  have 2: "\<forall>k. k \<noteq> jobId \<longrightarrow> InMemory_updateJob now jobId patch store k = store k"
    by (simp add: InMemory_updateJob_def assms(1))
  have 3: "BullMQ_getJob json None (id_job djob)
            (snd (BullMQ_updateJob json now None None jobId patch b))
           = Inr (Some (assign djob patch now))"
    by (simp add: BullMQ_updateJob_existing [OF assms(2)] BullMQ_getJob_stored assms(3) r)
  have 4: "\<forall>k. k \<noteq> key (id_job djob) \<longrightarrow>
            client (snd (BullMQ_updateJob json now None None jobId patch b)) k = client b k"
    by (simp add: BullMQ_updateJob_existing [OF assms(2)])
  from 3 have 5: "id_job djob = jobId \<longrightarrow>
            BullMQ_getJob json None jobId (snd (BullMQ_updateJob json now None None jobId patch b))
             = Inr (Some (assign djob patch now))"
    by auto
  have 6: "id_job djob \<noteq> jobId \<longrightarrow>
            BullMQ_getJob json None jobId (snd (BullMQ_updateJob json now None None jobId patch b))
             = Inr (Some djob)"
    using k assms(2)
    by (simp add: BullMQ_updateJob_existing [OF assms(2)] BullMQ_getJob_other)
  have 7: "\<forall>j :: 'r Job.
            createdAt (assign j patch now)
              = (case p_createdAt patch of None \<Rightarrow> createdAt j | Some v \<Rightarrow> v)
          \<and> input (assign j patch now) = (case p_input patch of None \<Rightarrow> input j | Some v \<Rightarrow> v)
          \<and> id_job (assign j patch now) = (case p_id patch of None \<Rightarrow> id_job j | Some v \<Rightarrow> v)
          \<and> status (assign j patch now) = (case p_status patch of None \<Rightarrow> status j | Some v \<Rightarrow> v)
          \<and> result (assign j patch now) = (case p_result patch of None \<Rightarrow> result j | Some v \<Rightarrow> v)
          \<and> error (assign j patch now) = (case p_error patch of None \<Rightarrow> error j | Some v \<Rightarrow> v)
          \<and> updatedAt (assign j patch now) = now"
    by (simp add: assign_def)
  from 1 2 3 4 5 6 7 show ?thesis
    by (intro conjI)
qed

theorem updateJob_frame_witness:
  "InMemory_getJob ''a''
     (InMemory_updateJob 9 ''a'' (no_patch\<lparr>p_status := Some Running\<rparr>)
        (snd (InMemory_createJob ''a'' 1 1 eiffel (Map.empty :: string store))))
     = Some \<lparr>id_job = ''a'', status = Running, createdAt = 1, updatedAt = 9,
              input = eiffel, result = None, error = None\<rparr>
   \<and> BullMQ_getJob wire None ''a''
       (snd (BullMQ_updateJob wire 9 None None ''a'' (no_patch\<lparr>p_status := Some Running\<rparr>)
          (snd (BullMQ_createJob wire ''a'' 1 1 None eiffel up))))
     = Inr (Some \<lparr>id_job = ''a'', status = Running, createdAt = 1, updatedAt = 9,
              input = eiffel, result = None, error = None\<rparr>)"
proof -
  let ?job = "\<lparr>id_job = ''a'', status = Pending, createdAt = 1, updatedAt = 1,
                 input = eiffel, result = None, error = None\<rparr> :: string Job"
  have 1: "snd (InMemory_createJob ''a'' 1 1 eiffel (Map.empty :: string store)) ''a'' = Some ?job"
    by (simp add: InMemory_createJob_eq)
  have 2: "BullMQ_getJob wire None ''a'' (snd (BullMQ_createJob wire ''a'' 1 1 None eiffel up))
             = Inr (Some ?job)"
    by (simp add: BullMQ_createJob_ok BullMQ_getJob_stored codec_ok_wire up_def)
  from updateJob_frame [where store = "snd (InMemory_createJob ''a'' 1 1 eiffel Map.empty)"
      and jobId = "''a''" and job = ?job and djob = ?job and json = wire and now = 9
      and b = "snd (BullMQ_createJob wire ''a'' 1 1 None eiffel up)"
      and patch = "no_patch\<lparr>p_status := Some Running\<rparr>"] 1 2 codec_ok_wire
  show ?thesis by (simp add: assign_def no_patch_def)
qed

text \<open>
  A patch that names \<open>createdAt\<close> changes it: the record created at time 1 has
  \<open>createdAt = 7\<close> after the update. And in the durable backend, after a patch that
  named the id \<open>b\<close>, an update of \<open>a\<close> that names only the status replaces
  \<open>createdAt\<close> and \<open>input\<close> of the job stored under \<open>b\<close>.
\<close>

theorem updateJob_createdAt_counterexample:
  "createdAt (fst (InMemory_createJob ''a'' 1 1 eiffel (Map.empty :: string store))) = 1
   \<and> map_option createdAt
       (InMemory_getJob ''a''
          (InMemory_updateJob 9 ''a'' (no_patch\<lparr>p_createdAt := Some 7\<rparr>)
             (snd (InMemory_createJob ''a'' 1 1 eiffel (Map.empty :: string store))))) = Some 7
   \<and> map_sum id (map_option (\<lambda>j. (createdAt j, input j))) (BullMQ_getJob wire None ''b'' misfiled)
      = Inr (Some (2, water))
   \<and> map_sum id (map_option (\<lambda>j. (createdAt j, input j)))
       (BullMQ_getJob wire None ''b''
          (snd (BullMQ_updateJob wire 4 None None ''a'' (no_patch\<lparr>p_status := Some Running\<rparr>)
             misfiled)))
      = Inr (Some (1, eiffel))"
proof -
  let ?ja = "\<lparr>id_job = ''b'', status = Pending, createdAt = 1, updatedAt = 3,
                     input = eiffel, result = None :: string option, error = None\<rparr>"
  let ?jb = "\<lparr>id_job = ''b'', status = Pending, createdAt = 2, updatedAt = 2,
                     input = water, result = None :: string option, error = None\<rparr>"
  have g: "BullMQ_getJob wire None ''a'' misfiled = Inr (Some ?ja)"
    by (rule BullMQ_getJob_stored [OF codec_ok_wire]) (simp_all add: misfiled_eq key_a_b)
  have h: "BullMQ_getJob wire None ''b'' misfiled = Inr (Some ?jb)"
    by (rule BullMQ_getJob_stored [OF codec_ok_wire]) (simp_all add: misfiled_eq key_a_b)
  have m: "ready misfiled = None"
    by (simp add: misfiled_eq)
  have "createdAt (fst (InMemory_createJob ''a'' 1 1 eiffel (Map.empty :: string store))) = 1
   \<and> map_option createdAt
       (InMemory_getJob ''a''
          (InMemory_updateJob 9 ''a'' (no_patch\<lparr>p_createdAt := Some 7\<rparr>)
             (snd (InMemory_createJob ''a'' 1 1 eiffel (Map.empty :: string store))))) = Some 7"
    by (simp add: InMemory_createJob_def InMemory_updateJob_def InMemory_getJob_def assign_def
      no_patch_def Let_def)
  moreover have "map_sum id (map_option (\<lambda>j. (createdAt j, input j)))
       (BullMQ_getJob wire None ''b''
          (snd (BullMQ_updateJob wire 4 None None ''a'' (no_patch\<lparr>p_status := Some Running\<rparr>)
             misfiled)))
      = Inr (Some (1, eiffel))"
    by (simp add: BullMQ_updateJob_existing [OF g] BullMQ_getJob_stored [OF codec_ok_wire] m
        assign_def no_patch_def)
  ultimately show ?thesis
    by (simp add: h)
qed

section \<open>The expiry sweeper\<close>

lemma sweep_None: "store k = None \<Longrightarrow> sweep t store k = None"
  by (simp add: sweep_def)

lemma sweep_Some:
  "store k = Some job \<Longrightarrow>
   sweep t store k = (if createdAt job < t - retention_ms then None else Some job)"
  by (simp add: sweep_def)

lemma sweeps_None: "store k = None \<Longrightarrow> sweeps ts store k = None"
  by (induction ts arbitrary: store) (simp_all add: sweep_None)

lemma sweeps_keeps:
  "store k = Some job \<Longrightarrow> \<forall>t\<in>set ts. t \<le> createdAt job + retention_ms \<Longrightarrow>
   sweeps ts store k = Some job"
proof (induction ts arbitrary: store)
  case Nil
  then show ?case by simp
next
  case (Cons t ts)
  from Cons.prems have "sweep t store k = Some job"
    by (simp add: sweep_Some)
  with Cons show ?case by simp
qed

lemma sweeps_drops:
  "store k = Some job \<Longrightarrow> \<exists>t\<in>set ts. createdAt job + retention_ms < t \<Longrightarrow>
   sweeps ts store k = None"
proof (induction ts arbitrary: store)
  case Nil
  then show ?case by simp
next
  case (Cons t ts)
  show ?case
  proof (cases "createdAt job + retention_ms < t")
    case True
    with Cons.prems(1) have "sweep t store k = None"
      by (simp add: sweep_Some)
    then show ?thesis by (simp add: sweeps_None)
  next
    case False
    with Cons.prems have "sweep t store k = Some job" and "\<exists>t\<in>set ts. createdAt job + retention_ms < t"
      by (auto simp: sweep_Some)
    with Cons.IH show ?thesis by simp
  qed
qed

text \<open>
  C7. The timer of the in-memory backend has a period of 10 minutes. A run of the
  sweeper at time \<open>t\<close> removes exactly the records created more than one hour before
  \<open>t\<close>, whatever their status. So a job created at \<open>T\<close> is still returned by
  \<open>getJob\<close> after any runs of the sweeper up to \<open>T\<close> + 59 minutes, and is no longer
  returned once the sweeper has run after \<open>T\<close> + 60 minutes, as it has at \<open>T\<close> + 61
  minutes when a run fell in the last minute.
\<close>

theorem sweeper_retention:
  assumes "InMemory_createJob uuid T now2 inp store = (job, store')"
  shows "sweep_interval_ms = 10 * 60 * 1000
       \<and> (\<forall>i < n. ticks t0 n ! i = t0 + (int i + 1) * (10 * 60 * 1000))
       \<and> (\<forall>s k j. s k = Some j \<longrightarrow>
             sweep t s k = (if createdAt j < t - 60 * 60 * 1000 then None else Some j))
       \<and> ((\<forall>t\<in>set ts. t \<le> T + 59 * 60 * 1000) \<longrightarrow>
             InMemory_getJob (id_job job) (sweeps ts store') = Some job)
       \<and> ((\<exists>t\<in>set ts. T + 60 * 60 * 1000 < t \<and> t \<le> T + 61 * 60 * 1000) \<longrightarrow>
             InMemory_getJob (id_job job) (sweeps ts store') = None)"
proof -
  from assms have j: "store' (id_job job) = Some job" and c: "createdAt job = T"
    by (auto simp: InMemory_createJob_def Let_def)
  have "sweep_interval_ms = 10 * 60 * 1000"
    by (simp add: sweep_interval_ms_def)
  moreover have "\<forall>i < n. ticks t0 n ! i = t0 + (int i + 1) * (10 * 60 * 1000)"
    by (simp add: ticks_def sweep_interval_ms_def nth_append del: upt_Suc)
  moreover have "\<forall>s k j. s k = Some j \<longrightarrow>
           sweep t s k = (if createdAt j < t - 60 * 60 * 1000 then None else Some j)"
    by (simp add: sweep_Some retention_ms_def)
  moreover have "(\<forall>t\<in>set ts. t \<le> T + 59 * 60 * 1000) \<longrightarrow>
           InMemory_getJob (id_job job) (sweeps ts store') = Some job"
  proof
    assume "\<forall>t\<in>set ts. t \<le> T + 59 * 60 * 1000"
    then have "\<forall>t\<in>set ts. t \<le> createdAt job + retention_ms"
      by (auto simp: c retention_ms_def)
    with j show "InMemory_getJob (id_job job) (sweeps ts store') = Some job"
      by (simp add: InMemory_getJob_def sweeps_keeps)
  qed
  moreover have "(\<exists>t\<in>set ts. T + 60 * 60 * 1000 < t \<and> t \<le> T + 61 * 60 * 1000) \<longrightarrow>
           InMemory_getJob (id_job job) (sweeps ts store') = None"
  proof
    assume "\<exists>t\<in>set ts. T + 60 * 60 * 1000 < t \<and> t \<le> T + 61 * 60 * 1000"
    then have "\<exists>t\<in>set ts. createdAt job + retention_ms < t"
      by (auto simp: c retention_ms_def)
    with j show "InMemory_getJob (id_job job) (sweeps ts store') = None"
      by (simp add: InMemory_getJob_def sweeps_drops)
  qed
  ultimately show ?thesis
    by (intro conjI)
qed

theorem sweeper_retention_witness:
  "InMemory_getJob ''a''
     (sweeps [600000, 1200000, 1800000, 2400000, 3000000]
        (snd (InMemory_createJob ''a'' 0 0 eiffel (Map.empty :: string store))))
     = Some (fst (InMemory_createJob ''a'' 0 0 eiffel (Map.empty :: string store)))
   \<and> InMemory_getJob ''a''
     (sweeps [600000, 1200000, 1800000, 2400000, 3000000, 3600000, 3600001]
        (snd (InMemory_createJob ''a'' 0 0 eiffel (Map.empty :: string store))))
     = None"
proof -
  let ?J = "fst (InMemory_createJob ''a'' 0 0 eiffel (Map.empty :: string store))"
  let ?S = "snd (InMemory_createJob ''a'' 0 0 eiffel (Map.empty :: string store))"
  let ?early = "[600000, 1200000, 1800000, 2400000, 3000000] :: timestamp list"
  let ?late = "[600000, 1200000, 1800000, 2400000, 3000000, 3600000, 3600001] :: timestamp list"
  have c: "InMemory_createJob ''a'' 0 0 eiffel (Map.empty :: string store) = (?J, ?S)"
    by simp
  have i: "id_job ?J = ''a''"
    by (simp add: InMemory_createJob_eq)
  have a: "\<forall>t\<in>set ?early. t \<le> 0 + 59 * 60 * 1000"
    by simp
  have b: "\<exists>t\<in>set ?late. 0 + 60 * 60 * 1000 < t \<and> t \<le> 0 + 61 * 60 * 1000"
    by simp
  from sweeper_retention [OF c, where ts = ?early] a
  have "InMemory_getJob (id_job ?J) (sweeps ?early ?S) = Some ?J"
    by blast
  moreover from sweeper_retention [OF c, where ts = ?late] b
  have "InMemory_getJob (id_job ?J) (sweeps ?late ?S) = None"
    by blast
  ultimately show ?thesis
    by (simp only: i)
qed

section \<open>Failures of the durable store\<close>

text \<open>
  C6, as the code has it. \<open>getJob\<close> answers not-found for a missing key, an empty
  value and a value that does not parse, and the poll route answers 404. A rejection is
  not absorbed: when the
  constructor's promise rejected, or the client rejects a command, \<open>getJob\<close>,
  \<open>createJob\<close> and \<open>updateJob\<close> reject with the same reason and leave the database
  as it was.
\<close>

theorem BullMQ_failures:
  "(ready b = None \<longrightarrow>
      (client b (key jobId) = None
       \<or> (\<exists>ttl. client b (key jobId) = Some ([], ttl))
       \<or> (\<exists>raw ttl. client b (key jobId) = Some (raw, ttl) \<and> parse json raw = None)) \<longrightarrow>
      BullMQ_getJob json None jobId b = Inr None
    \<and> get_jobs_id json (env\<lparr>env_fault := None\<rparr>) jobId (BullMQ b) = Inr (Status404 ''Job not found''))
   \<and> BullMQ_getJob json (Some e) jobId b = Inl (case ready b of None \<Rightarrow> e | Some r \<Rightarrow> r)
   \<and> get_jobs_id json (env\<lparr>env_fault := Some e\<rparr>) jobId (BullMQ b)
       = Inl (case ready b of None \<Rightarrow> e | Some r \<Rightarrow> r)
   \<and> BullMQ_createJob json uuid now1 now2 (Some e) inp b
       = (Inl (case ready b of None \<Rightarrow> e | Some r \<Rightarrow> r), b)
   \<and> BullMQ_updateJob json now (Some e) fault_set jobId patch b
       = (Inl (case ready b of None \<Rightarrow> e | Some r \<Rightarrow> r), b)
   \<and> (BullMQ_getJob json None jobId b = Inr (Some job) \<longrightarrow>
        BullMQ_updateJob json now None (Some e) jobId patch b = (Inl e, b))
   \<and> (ready b = Some r \<longrightarrow>
        BullMQ_getJob json fault jobId b = Inl r
      \<and> BullMQ_createJob json uuid now1 now2 fault inp b = (Inl r, b)
      \<and> BullMQ_updateJob json now fault fault_set jobId patch b = (Inl r, b))"
  by (auto simp: BullMQ_getJob_def BullMQ_createJob_def BullMQ_updateJob_def client_get_def
      client_set_def get_jobs_id_def getJob_def Let_def split: option.splits)

theorem BullMQ_failures_witness:
  "BullMQ_getJob wire None ''a'' up = Inr None
   \<and> get_jobs_id wire calm ''a'' (BullMQ up) = Inr (Status404 ''Job not found'')
   \<and> BullMQ_getJob wire None ''a'' (up\<lparr>client := [key ''a'' \<mapsto> (''not json'', 86400)]\<rparr>) = Inr None
   \<and> BullMQ_updateJob wire 5 None (Some ''Connection is closed.'') ''a'' no_patch
       (snd (BullMQ_createJob wire ''a'' 1 1 None eiffel up))
     = (Inl ''Connection is closed.'', snd (BullMQ_createJob wire ''a'' 1 1 None eiffel up))
   \<and> BullMQ_createJob wire ''a'' 1 1 None eiffel (up\<lparr>ready := Some ''Cannot find package ioredis''\<rparr>)
     = (Inl ''Cannot find package ioredis'', up\<lparr>ready := Some ''Cannot find package ioredis''\<rparr>)"
proof -
  let ?job = "\<lparr>id_job = ''a'', status = Pending, createdAt = 1, updatedAt = 1,
                 input = eiffel, result = None, error = None\<rparr> :: string Job"
  have 2: "BullMQ_getJob wire None ''a'' (snd (BullMQ_createJob wire ''a'' 1 1 None eiffel up))
             = Inr (Some ?job)"
    by (simp add: BullMQ_createJob_ok BullMQ_getJob_stored codec_ok_wire up_def)
  have 3: "parse wire ''not json'' = None"
    by (simp add: wire_def wire_parse_def)
  from BullMQ_failures [where b = up and jobId = "''a''" and json = wire and env = calm]
    BullMQ_failures [where b = "up\<lparr>client := [key ''a'' \<mapsto> (''not json'', 86400)]\<rparr>"
      and jobId = "''a''" and json = wire]
    BullMQ_failures [where b = "snd (BullMQ_createJob wire ''a'' 1 1 None eiffel up)"
      and jobId = "''a''" and json = wire and job = ?job and now = 5
      and e = "''Connection is closed.''" and patch = no_patch]
    BullMQ_failures [where b = "up\<lparr>ready := Some ''Cannot find package ioredis''\<rparr>"
      and json = wire and r = "''Cannot find package ioredis''" and uuid = "''a''"
      and ?now1.0 = 1 and ?now2.0 = 1 and inp = eiffel and fault = None] 2 3
  show ?thesis by (simp add: up_def calm_def)
qed

text \<open>
  A read that the client rejects reaches the caller of \<open>getJob\<close>, and through it the
  poll route, as a rejection, for a job that is stored.
\<close>

theorem BullMQ_getJob_rejects_counterexample:
  "BullMQ_getJob wire (Some ''Reached the max retries per request limit'') ''a''
     (snd (BullMQ_createJob wire ''a'' 1 1 None eiffel up))
     = Inl ''Reached the max retries per request limit''
   \<and> get_jobs_id wire (calm\<lparr>env_fault := Some ''Reached the max retries per request limit''\<rparr>) ''a''
       (BullMQ (snd (BullMQ_createJob wire ''a'' 1 1 None eiffel up)))
     = Inl ''Reached the max retries per request limit''"
  by (simp add: BullMQ_getJob_def BullMQ_createJob_ok client_get_def up_def get_jobs_id_def
      getJob_def)

section \<open>The wrappers\<close>

lemma poll_InMemory: "poll json k (InMemory store) = store k"
  by (simp add: poll_def getJob_def InMemory_getJob_def)

lemma poll_BullMQ:
  "poll json k (BullMQ b) =
     (case ready b of
        Some e \<Rightarrow> None
      | None \<Rightarrow> (case client b (key k) of
                   None \<Rightarrow> None
                 | Some (raw, ttl) \<Rightarrow> if raw = [] then None else parse json raw))"
  by (simp add: poll_def getJob_def BullMQ_getJob_def client_get_def calm_def
      split: option.splits)

lemma updateJob_Inl: "updateJob json e k p backend = (Inl rej, b') \<Longrightarrow> b' = backend"
  by (cases backend)
    (auto simp: updateJob_def BullMQ_updateJob_def BullMQ_getJob_def client_get_def
      client_set_def Let_def split: option.splits if_splits prod.splits)

lemma updateJob_Inr:
  assumes "updateJob json e k p backend = (Inr u, b')" and "codec_ok json"
    and "poll json k backend = Some j" and "id_job j = k"
  shows "poll json k b' = Some (assign j p (env_now e))"
proof (cases backend)
  case (InMemory store)
  with assms show ?thesis
    by (auto simp: updateJob_def InMemory_updateJob_def poll_InMemory)
next
  case (BullMQ b)
  with assms show ?thesis
    by (auto simp: updateJob_def BullMQ_updateJob_def BullMQ_getJob_def client_get_def
        client_set_def poll_BullMQ codec_ok_def Let_def split: option.splits if_splits prod.splits)
qed

lemma updateJob_answers:
  assumes "poll json k backend = Some j" and "answers backend e"
  shows "fst (updateJob json e k p backend) = Inr ()"
proof (cases backend)
  case (InMemory store)
  then show ?thesis
    by (simp add: updateJob_def)
next
  case (BullMQ b)
  with assms show ?thesis
    by (auto simp: updateJob_def BullMQ_updateJob_def BullMQ_getJob_def client_get_def
        client_set_def poll_BullMQ answers_def healthy_def Let_def
        split: option.splits if_splits prod.splits)
qed

lemma createJob_poll:
  assumes "createJob json e inp backend = (Inr job, b)" and "codec_ok json"
  shows "poll json (id_job job) b = Some job \<and> status job = Pending \<and> result job = None
       \<and> error job = None \<and> input job = inp"
proof (cases backend)
  case (InMemory store)
  with assms show ?thesis
    by (auto simp: createJob_def InMemory_createJob_def poll_InMemory Let_def)
next
  case (BullMQ d)
  with assms show ?thesis
    by (auto simp: createJob_def BullMQ_createJob_def client_set_def poll_BullMQ codec_ok_def
        Let_def split: option.splits prod.splits)
qed

lemma updateJob_kind: "answers (snd (updateJob json e k p backend)) e' = answers backend e'"
  by (cases backend) (simp_all add: updateJob_def answers_def case_prod_beta)

lemma BullMQ_getJob_poll:
  "ready b = None \<Longrightarrow> BullMQ_getJob json None k b = Inr (poll json k (BullMQ b))"
  by (simp add: poll_BullMQ BullMQ_getJob_def client_get_def split: option.splits)

lemma sim_getJob: "sim json store b \<Longrightarrow> BullMQ_getJob json None k b = Inr (store k)"
  by (simp add: sim_def BullMQ_getJob_poll)

lemma wire_roundtrip: "parse wire (stringify wire job) = Some job" "stringify wire job \<noteq> []"
  using codec_ok_wire by (simp_all add: codec_ok_def)

lemma created_InMemory:
  "createJob wire (clock 1000) inp (InMemory Map.empty) =
     (Inr \<lparr>id_job = ''a'', status = Pending, createdAt = 1000, updatedAt = 1000,
            input = inp, result = None, error = None\<rparr>,
      InMemory [''a'' \<mapsto> \<lparr>id_job = ''a'', status = Pending, createdAt = 1000, updatedAt = 1000,
            input = inp, result = None, error = None\<rparr>])"
  by (simp add: createJob_def InMemory_createJob_def clock_def calm_def Let_def)

lemma created_BullMQ:
  "createJob wire (clock 1000) inp (BullMQ up) =
     (Inr \<lparr>id_job = ''a'', status = Pending, createdAt = 1000, updatedAt = 1000,
            input = inp, result = None, error = None\<rparr>,
      BullMQ \<lparr>ready = None, client = [key ''a'' \<mapsto>
        (stringify wire \<lparr>id_job = ''a'', status = Pending, createdAt = 1000, updatedAt = 1000,
            input = inp, result = None, error = None\<rparr>, 86400)]\<rparr>)"
  by (simp add: createJob_def BullMQ_createJob_def client_set_def clock_def calm_def up_def Let_def)

lemma accepted_InMemory:
  "post_verify_async wire (clock 1000) re process_keys eiffel_request (InMemory Map.empty)
   = (Inr (Status202 ''a'' ''pending'' ''/jobs/a''),
      Some (runJob wire re ''a'' ''The Eiffel Tower is 330m tall.''
              ''How tall is the Eiffel Tower?'' Basic [(''anthropic'', ''sk-ant-test'')]
              (Some ''https://agent.example/webhook'')
              (snd (createJob wire (clock 1000)
                 (eiffel\<lparr>callbackUrl := Some ''https://agent.example/webhook''\<rparr>)
                 (InMemory Map.empty)))))"
  by (simp add: post_verify_async_def eiffel_request_def process_keys_def resolveKeys_def
      nullish_def validateConfig_def buildApiKeyRecord_def entry_def createJob_def
      InMemory_createJob_def clock_def calm_def eiffel_def Let_def)

section \<open>Runs of the runner\<close>

lemma follows_same:
  "poll json k b = Some j \<Longrightarrow> id_job j = k \<Longrightarrow> result_error_inv j \<Longrightarrow>
   follows json k (status j) (map (\<lambda>ev. (ev, b)) (if_callbackUrl f cb pl))"
  by (simp add: if_callbackUrl_def pushWebhook_def Let_def split: option.splits fetched.splits)

lemma follows_statuses:
  "follows json k s t \<Longrightarrow> observed json k t = map Some (statuses_after s (map fst t))"
  by (induction t arbitrary: s) (auto simp: observed_def split: option.splits)

lemma last_statuses_after: "last (s # statuses_after s evs) = last (s # written evs)"
proof (induction evs arbitrary: s)
  case Nil
  then show ?case by simp
next
  case (Cons ev evs)
  show ?case
  proof (cases ev)
    case (Called_updateJob i p r)
    with Cons [of "after_event ev s"] show ?thesis
      by (cases r; cases "p_status p") simp_all
  next
    case (Called_verify out tr apiKeys q)
    with Cons [of s] show ?thesis by simp
  next
    case (Called_fetch rq f)
    with Cons [of s] show ?thesis by simp
  next
    case (Logged_warn m)
    with Cons [of s] show ?thesis by simp
  qed
qed

lemma runJob_nonempty: "fst (runJob json re k out q tr apiKeys cb b0) \<noteq> []"
  by (simp add: runJob_def Let_def case_prod_beta split: prod.splits sum.splits verified.splits)

lemma observed_last:
  "t \<noteq> [] \<Longrightarrow> observed json k t = map Some xs \<Longrightarrow>
   map_option status (poll json k (snd (last t))) = Some (last xs)"
proof -
  assume t: "t \<noteq> []" and o: "observed json k t = map Some xs"
  from t have "map_option status (poll json k (snd (last t))) = last (observed json k t)"
    by (simp add: observed_def last_map case_prod_beta)
  moreover from t o have "xs \<noteq> []"
    by (auto simp: observed_def)
  ultimately show ?thesis
    using o by (simp add: last_map)
qed

lemma catch_block_follows:
  assumes "codec_ok json" and "poll json k b = Some j" and "id_job j = k"
    and "status j = Running" and "result j = None" and "error j = None"
  shows "follows json k Running (fst (catch_block json e f k cb err b))"
proof -
  let ?patch = "no_patch\<lparr>p_status := Some Error, p_error := Some (Some (message err))\<rparr> :: 'a JobPatch"
  obtain r b' where u: "updateJob json e k ?patch b = (r, b')"
    by (cases "updateJob json e k ?patch b")
  show ?thesis
  proof (cases r)
    case (Inl rej)
    with u have "b' = b"
      by (simp add: updateJob_Inl)
    with u Inl assms show ?thesis
      by (simp add: catch_block_def Let_def result_error_inv_def)
  next
    case (Inr un)
    let ?j = "assign j ?patch (env_now e)"
    from u Inr assms have p: "poll json k b' = Some ?j"
      by (simp add: updateJob_Inr)
    have s: "status ?j = Error" and i: "id_job ?j = k" and v: "result_error_inv ?j"
      using assms by (simp_all add: assign_def no_patch_def result_error_inv_def)
    from follows_same [OF p i v, of f cb]
    have "follows json k Error (map (\<lambda>ev. (ev, b'))
            (if_callbackUrl f cb \<lparr>w_jobId = k, w_status = Error, w_result = None,
               w_error = Some (message err)\<rparr>))"
      by (simp add: s)
    with u Inr p s i v show ?thesis
      by (simp add: catch_block_def Let_def terminal_def)
  qed
qed

lemma runJob_follows:
  assumes "codec_ok json" and "poll json k b0 = Some j0" and "id_job j0 = k"
    and "status j0 = Pending" and "result j0 = None" and "error j0 = None"
  shows "follows json k Pending (fst (runJob json re k out q tr apiKeys cb b0))"
proof -
  let ?running = "no_patch\<lparr>p_status := Some Running\<rparr> :: 'a JobPatch"
  obtain r1 b1 where u1: "updateJob json (run_upd1 re) k ?running b0 = (r1, b1)"
    by (cases "updateJob json (run_upd1 re) k ?running b0")
  show ?thesis
  proof (cases r1)
    case (Inl rej)
    with u1 have "b1 = b0"
      by (simp add: updateJob_Inl)
    with u1 Inl assms show ?thesis
      by (simp add: runJob_def Let_def result_error_inv_def)
  next
    case (Inr un)
    let ?j1 = "assign j0 ?running (env_now (run_upd1 re))"
    from u1 Inr assms have p1: "poll json k b1 = Some ?j1"
      by (simp add: updateJob_Inr)
    have j1: "id_job ?j1 = k" "status ?j1 = Running" "result ?j1 = None" "error ?j1 = None"
      using assms by (simp_all add: assign_def no_patch_def)
    have v1: "result_error_inv ?j1"
      using j1 by (simp add: result_error_inv_def)
    show ?thesis
    proof (cases "run_verify re")
      case Hangs
      with u1 Inr p1 j1 v1 show ?thesis
        by (simp add: runJob_def Let_def)
    next
      case (Threw err)
      from catch_block_follows [OF assms(1) p1 j1]
      have "follows json k Running (fst (catch_block json (run_upd2 re) (run_fetch re) k cb err b1))" .
      with u1 Inr p1 j1 v1 Threw show ?thesis
        by (simp add: runJob_def Let_def case_prod_beta)
    next
      case (Returned res)
      let ?finished = "no_patch\<lparr>p_status := Some Done, p_result := Some (Some res)\<rparr> :: 'a JobPatch"
      obtain r2 b2 where u2: "updateJob json (run_upd2 re) k ?finished b1 = (r2, b2)"
        by (cases "updateJob json (run_upd2 re) k ?finished b1")
      show ?thesis
      proof (cases r2)
        case (Inl rej)
        with u2 have e: "b2 = b1"
          by (simp add: updateJob_Inl)
        from catch_block_follows [OF assms(1) p1 j1]
        have "follows json k Running
                (fst (catch_block json (run_upd3 re) (run_fetch re) k cb (ErrorObject rej) b1))" .
        with u1 Inr p1 j1 v1 Returned u2 Inl e show ?thesis
          by (simp add: runJob_def Let_def case_prod_beta)
      next
        case (Inr un2)
        let ?j2 = "assign ?j1 ?finished (env_now (run_upd2 re))"
        from u2 Inr p1 j1 assms(1) have p2: "poll json k b2 = Some ?j2"
          by (simp add: updateJob_Inr)
        have s2: "status ?j2 = Done" and i2: "id_job ?j2 = k" and v2: "result_error_inv ?j2"
          using assms by (simp_all add: assign_def no_patch_def result_error_inv_def)
        from follows_same [OF p2 i2 v2, of "run_fetch re" cb]
        have "follows json k Done (map (\<lambda>ev. (ev, b2))
            (if_callbackUrl (run_fetch re) cb \<lparr>w_jobId = k, w_status = Done, w_result = Some res,
               w_error = None\<rparr>))"
          by (simp add: s2)
        with u1 \<open>r1 = Inr un\<close> p1 j1 v1 Returned u2 Inr p2 s2 i2 v2 show ?thesis
          by (simp add: runJob_def Let_def terminal_def)
      qed
    qed
  qed
qed

lemma follows_inv:
  "follows json k s t \<Longrightarrow> \<forall>(ev, b)\<in>set t. \<exists>j. poll json k b = Some j \<and> result_error_inv j"
proof (induction t arbitrary: s)
  case Nil
  then show ?case by simp
next
  case (Cons x t)
  obtain ev b where x: "x = (ev, b)"
    by (cases x)
  from Cons.prems x obtain j where j: "poll json k b = Some j" "result_error_inv j"
    and t: "follows json k (status j) t"
    by (auto split: option.splits)
  from Cons.IH [OF t] j x show ?case
    by simp
qed

lemma follows_in_order: "follows json k s t \<Longrightarrow> in_order s (observed json k t)"
  by (induction t arbitrary: s) (auto simp: observed_def split: option.splits)

lemma if_callbackUrl_events:
  "written (if_callbackUrl f cb pl) = [] \<and> until_verify (if_callbackUrl f cb pl) = None
   \<and> length (fetches (if_callbackUrl f cb pl)) \<le> 1
   \<and> length (warnings (if_callbackUrl f cb pl)) \<le> 1"
  by (simp add: if_callbackUrl_def pushWebhook_def Let_def split: option.splits fetched.splits)

lemma written_append: "written (xs @ ys) = written xs @ written ys"
  by (induction xs rule: written.induct) (simp_all split: option.splits)

lemma fetches_append: "fetches (xs @ ys) = fetches xs @ fetches ys"
  by (induction xs rule: fetches.induct) simp_all

lemma warnings_append: "warnings (xs @ ys) = warnings xs @ warnings ys"
  by (induction xs rule: warnings.induct) simp_all

lemma map_fst_pair: "map (fst \<circ> (\<lambda>ev. (ev, b))) evs = evs"
  by (induction evs) simp_all

lemma delivery_same: "delivery_keeps_store b (map (\<lambda>ev. (ev, b)) evs)"
  by (induction evs) (simp, case_tac a, simp_all)

lemma catch_block_written:
  "written (map fst (fst (catch_block json e f k cb err b))) =
     (if snd (catch_block json e f k cb err b) = Resolved then [Error] else [])"
  by (simp add: catch_block_def Let_def map_fst_pair if_callbackUrl_events no_patch_def
      split: prod.splits sum.splits)

lemma runJob_written:
  "written (map fst (fst (runJob json re k out q tr apiKeys cb b0)))
     \<in> {[], [Running], [Running, Done], [Running, Error]}
   \<and> (snd (runJob json re k out q tr apiKeys cb b0) = Resolved \<longrightarrow>
        written (map fst (fst (runJob json re k out q tr apiKeys cb b0))) = [Running, Done]
      \<or> written (map fst (fst (runJob json re k out q tr apiKeys cb b0))) = [Running, Error])"
  by (simp add: runJob_def Let_def map_fst_pair if_callbackUrl_events no_patch_def
      catch_block_written written_append case_prod_beta
      split: prod.splits sum.splits verified.splits)

lemma runJob_until_verify:
  "until_verify (map fst (fst (runJob json re k out q tr apiKeys cb b0)))
     = (case fst (updateJob json (run_upd1 re) k (no_patch\<lparr>p_status := Some Running\<rparr>) b0) of
          Inl rej \<Rightarrow> None
        | Inr u \<Rightarrow> Some [Called_updateJob k (no_patch\<lparr>p_status := Some Running\<rparr>) (Inr ())])"
  by (simp add: runJob_def Let_def case_prod_beta split: prod.splits sum.splits verified.splits)

lemma catch_block_fetches:
  "fetches (map fst (fst (catch_block json e f k cb err b))) =
     (if snd (catch_block json e f k cb err b) = Resolved \<and> cb \<noteq> None \<and> cb \<noteq> Some []
      then [\<lparr>req_url = the cb, req_method = ''POST'',
             req_headers = [(''Content-Type'', ''application/json'')],
             req_body = \<lparr>w_jobId = k, w_status = Error, w_result = None,
                          w_error = Some (message err)\<rparr>,
             req_timeout_ms = 10000\<rparr>]
      else [])"
  by (auto simp: catch_block_def Let_def map_fst_pair if_callbackUrl_def pushWebhook_def
      split: prod.splits sum.splits option.splits fetched.splits)

lemma catch_block_warnings:
  "warnings (map fst (fst (catch_block json e f k cb err b))) =
     (if fetches (map fst (fst (catch_block json e f k cb err b))) \<noteq> [] \<and> (\<exists>x. f = FetchRejected x)
      then [''[pot-api] Webhook delivery failed for '' @ the cb @ '':''] else [])"
  by (auto simp: catch_block_def Let_def map_fst_pair if_callbackUrl_def pushWebhook_def
      split: prod.splits sum.splits option.splits fetched.splits)

lemma catch_block_delivery:
  "delivery_keeps_store b0 (fst (catch_block json e f k cb err b))"
  by (auto simp: catch_block_def Let_def delivery_same split: prod.splits sum.splits)

lemma catch_block_fetch_free:
  "snd (catch_block json e f k cb err b) = snd (catch_block json e f' k cb err b)"
  by (auto simp: catch_block_def Let_def split: prod.splits sum.splits)

lemma runJob_fetches:
  assumes "runJob json re k out q tr apiKeys cb b0 = (t, r)"
  shows "length (fetches (map fst t)) \<le> 1
       \<and> (\<forall>rq\<in>set (fetches (map fst t)).
            cb = Some (req_url rq) \<and> req_url rq \<noteq> [] \<and> r = Resolved
          \<and> written (map fst t) \<noteq> [] \<and> terminal (last (written (map fst t)))
          \<and> w_status (req_body rq) = last (written (map fst t))
          \<and> w_jobId (req_body rq) = k
          \<and> req_method rq = ''POST''
          \<and> req_headers rq = [(''Content-Type'', ''application/json'')]
          \<and> req_timeout_ms rq = 10000)"
  using assms
  by (auto simp: runJob_def Let_def case_prod_beta map_fst_pair written_append fetches_append
      catch_block_fetches catch_block_written if_callbackUrl_def pushWebhook_def terminal_def
      no_patch_def
      split: prod.splits sum.splits verified.splits option.splits fetched.splits if_splits)

lemma runJob_warnings:
  assumes "runJob json re k out q tr apiKeys cb b0 = (t, r)"
  shows "(warnings (map fst t) \<noteq> []) = (fetches (map fst t) \<noteq> [] \<and> (\<exists>x. run_fetch re = FetchRejected x))"
  using assms
  by (auto simp: runJob_def Let_def case_prod_beta map_fst_pair warnings_append fetches_append
      catch_block_fetches catch_block_warnings if_callbackUrl_def pushWebhook_def
      split: prod.splits sum.splits verified.splits option.splits fetched.splits if_splits)

lemma runJob_delivery:
  "delivery_keeps_store b0 (fst (runJob json re k out q tr apiKeys cb b0))"
  by (auto simp: runJob_def Let_def case_prod_beta delivery_same catch_block_delivery
      split: prod.splits sum.splits verified.splits)

lemma runJob_fetch_free:
  "snd (runJob json (re\<lparr>run_fetch := f\<rparr>) k out q tr apiKeys cb b0)
     = snd (runJob json re k out q tr apiKeys cb b0)
   \<and> written (map fst (fst (runJob json (re\<lparr>run_fetch := f\<rparr>) k out q tr apiKeys cb b0)))
     = written (map fst (fst (runJob json re k out q tr apiKeys cb b0)))
   \<and> set (map snd (fst (runJob json (re\<lparr>run_fetch := f\<rparr>) k out q tr apiKeys cb b0)))
     = set (map snd (fst (runJob json re k out q tr apiKeys cb b0)))"
  by (auto simp: runJob_def Let_def case_prod_beta map_fst_pair written_append
      catch_block_written catch_block_def if_callbackUrl_def pushWebhook_def no_patch_def
      split: prod.splits sum.splits verified.splits option.splits fetched.splits if_splits)

lemma post_verify_async_accepted:
  assumes "post_verify_async json e re process_env req backend = (Inr (Status202 i s p), Some (t, r))"
  shows "\<exists>job b0 out q tr keys.
           createJob json e \<lparr>output_text = out, question = q, tier = tr,
                              callbackUrl = b_callbackUrl req\<rparr> backend = (Inr job, b0)
         \<and> i = id_job job
         \<and> runJob json re (id_job job) out q tr keys (b_callbackUrl req) b0 = (t, r)"
  using assms
  by (fastforce simp: post_verify_async_def Let_def
      split: if_splits option.splits prod.splits sum.splits)

lemma runJob_answers:
  assumes "codec_ok json" and "poll json k b0 = Some j0" and "id_job j0 = k"
    and "answers b0 (run_upd1 re)" and "answers b0 (run_upd2 re)"
  shows "case run_verify re of
           Returned res \<Rightarrow>
             snd (runJob json re k out q tr apiKeys cb b0) = Resolved
           \<and> written (map fst (fst (runJob json re k out q tr apiKeys cb b0))) = [Running, Done]
         | Threw err \<Rightarrow>
             snd (runJob json re k out q tr apiKeys cb b0) = Resolved
           \<and> written (map fst (fst (runJob json re k out q tr apiKeys cb b0))) = [Running, Error]
         | Hangs \<Rightarrow>
             snd (runJob json re k out q tr apiKeys cb b0) = Suspended
           \<and> written (map fst (fst (runJob json re k out q tr apiKeys cb b0))) = [Running]"
proof -
  let ?running = "no_patch\<lparr>p_status := Some Running\<rparr> :: 'a JobPatch"
  obtain r1 b1 where u1: "updateJob json (run_upd1 re) k ?running b0 = (r1, b1)"
    by (cases "updateJob json (run_upd1 re) k ?running b0")
  from updateJob_answers [OF assms(2,4), of ?running] u1 have r1: "r1 = Inr ()"
    by simp
  from updateJob_Inr [OF u1 [unfolded r1] assms(1,2,3)]
  have p1: "poll json k b1 = Some (assign j0 ?running (env_now (run_upd1 re)))" .
  from updateJob_kind [of json "run_upd1 re" k ?running b0 "run_upd2 re"] u1 assms(5)
  have a1: "answers b1 (run_upd2 re)"
    by simp
  have w: "written [Called_updateJob k ?running (Inr ()), Called_verify out tr apiKeys q] = [Running]"
    by simp
  show ?thesis
  proof (cases "run_verify re")
    case Hangs
    with u1 r1 show ?thesis
      by (simp add: runJob_def Let_def)
  next
    case (Threw err)
    let ?failed = "no_patch\<lparr>p_status := Some Error, p_error := Some (Some (message err))\<rparr> :: 'a JobPatch"
    from updateJob_answers [OF p1 a1, of ?failed]
    have "snd (catch_block json (run_upd2 re) (run_fetch re) k cb err b1) = Resolved"
      by (auto simp: catch_block_def Let_def split: prod.splits sum.splits)
    with u1 r1 Threw show ?thesis
      by (simp add: runJob_def Let_def case_prod_beta written_append catch_block_written)
  next
    case (Returned res)
    let ?finished = "no_patch\<lparr>p_status := Some Done, p_result := Some (Some res)\<rparr> :: 'a JobPatch"
    from updateJob_answers [OF p1 a1, of ?finished]
    have "fst (updateJob json (run_upd2 re) k ?finished b1) = Inr ()" .
    with u1 r1 Returned show ?thesis
      by (auto simp: runJob_def Let_def case_prod_beta written_append map_fst_pair
          if_callbackUrl_events no_patch_def split: prod.splits sum.splits)
  qed
qed

section \<open>The order of the transitions\<close>

text \<open>
  C2, as the code has it. A job made by \<open>createJob\<close> is pending. In every run of the
  runner on it, the status that a poll sees after each event is the one that the writes
  answered so far have left: every write that resolved has reached the store and nothing
  else changes the status. These statuses go pending, running, then done or error, and
  never leave a terminal status; at the end of the run the job has the last status
  written. The verification engine is called only after the write of \<open>running\<close> was
  answered, and nothing else precedes the call. The statuses written are \<open>running\<close>
  and then at most one of \<open>done\<close> and \<open>error\<close>; a run that resolves has written
  exactly one of them. When the backend answers the runner's calls, as the in-memory
  backend always does, the run resolves with \<open>done\<close> written if the engine returned
  and \<open>error\<close> written if it threw, and is suspended after \<open>running\<close> while the
  engine hangs. When the durable backend rejects them, a run can end with no terminal
  status written.
\<close>

theorem runJob_status_order:
  assumes "codec_ok json" and "createJob json e inp backend = (Inr job, b0)"
    and "runJob json re (id_job job) out q tr apiKeys cb b0 = (t, r)"
  shows "map_option status (poll json (id_job job) b0) = Some Pending
       \<and> observed json (id_job job) t = map Some (statuses_after Pending (map fst t))
       \<and> map_option status (poll json (id_job job) (snd (last t)))
           = Some (last (Pending # written (map fst t)))
       \<and> in_order Pending (observed json (id_job job) t)
       \<and> until_verify (map fst t)
           \<in> {None, Some [Called_updateJob (id_job job) (no_patch\<lparr>p_status := Some Running\<rparr>) (Inr ())]}
       \<and> written (map fst t) \<in> {[], [Running], [Running, Done], [Running, Error]}
       \<and> (r = Resolved \<longrightarrow>
            written (map fst t) = [Running, Done] \<or> written (map fst t) = [Running, Error])
       \<and> (answers b0 (run_upd1 re) \<and> answers b0 (run_upd2 re) \<longrightarrow>
            (case run_verify re of
               Returned res \<Rightarrow> r = Resolved \<and> written (map fst t) = [Running, Done]
             | Threw err \<Rightarrow> r = Resolved \<and> written (map fst t) = [Running, Error]
             | Hangs \<Rightarrow> r = Suspended \<and> written (map fst t) = [Running]))"
proof -
  from createJob_poll [OF assms(2,1)]
  have p: "poll json (id_job job) b0 = Some job" and s: "status job = Pending"
    and n: "result job = None" "error job = None"
    by simp_all
  from runJob_follows [OF assms(1) p refl s n, of re out q tr apiKeys cb] assms(3)
  have f: "follows json (id_job job) Pending t"
    by simp
  from runJob_nonempty [of json re "id_job job" out q tr apiKeys cb b0] assms(3)
  have ne: "t \<noteq> []"
    by simp
  have 1: "map_option status (poll json (id_job job) b0) = Some Pending"
    by (simp add: p s)
  have 2: "observed json (id_job job) t = map Some (statuses_after Pending (map fst t))"
    by (rule follows_statuses [OF f])
  from ne have "last (statuses_after Pending (map fst t))
                  = last (Pending # statuses_after Pending (map fst t))"
    by (cases t) simp_all
  with observed_last [OF ne 2]
  have 3: "map_option status (poll json (id_job job) (snd (last t)))
           = Some (last (Pending # written (map fst t)))"
    by (simp only: last_statuses_after)
  have 4: "in_order Pending (observed json (id_job job) t)"
    by (rule follows_in_order [OF f])
  from runJob_until_verify [of json re "id_job job" out q tr apiKeys cb b0] assms(3)
  have 5: "until_verify (map fst t)
          \<in> {None, Some [Called_updateJob (id_job job) (no_patch\<lparr>p_status := Some Running\<rparr>) (Inr ())]}"
    by (simp split: sum.splits)
  from runJob_written [of json re "id_job job" out q tr apiKeys cb b0] assms(3)
  have 6: "written (map fst t) \<in> {[], [Running], [Running, Done], [Running, Error]}"
    and 7: "r = Resolved \<longrightarrow>
           written (map fst t) = [Running, Done] \<or> written (map fst t) = [Running, Error]"
    by simp_all
  have 8: "answers b0 (run_upd1 re) \<and> answers b0 (run_upd2 re) \<longrightarrow>
            (case run_verify re of
               Returned res \<Rightarrow> r = Resolved \<and> written (map fst t) = [Running, Done]
             | Threw err \<Rightarrow> r = Resolved \<and> written (map fst t) = [Running, Error]
             | Hangs \<Rightarrow> r = Suspended \<and> written (map fst t) = [Running])"
  proof
    assume a: "answers b0 (run_upd1 re) \<and> answers b0 (run_upd2 re)"
    from runJob_answers [OF assms(1) p refl, of re out q tr apiKeys cb] a assms(3)
    show "case run_verify re of
               Returned res \<Rightarrow> r = Resolved \<and> written (map fst t) = [Running, Done]
             | Threw err \<Rightarrow> r = Resolved \<and> written (map fst t) = [Running, Error]
             | Hangs \<Rightarrow> r = Suspended \<and> written (map fst t) = [Running]"
      by (simp split: verified.splits)
  qed
  from 1 2 3 4 5 6 7 8 show ?thesis
    by (intro conjI)
qed

theorem runJob_status_order_witness:
  "written (map fst (fst (runJob wire (smooth (Returned ''verified'') (Response 200)) ''a''
       ''The Eiffel Tower is 330m tall.'' ''How tall is the Eiffel Tower?'' Basic [] None
       (snd (createJob wire (clock 1000) eiffel (InMemory Map.empty))))))
     = [Running, Done]
   \<and> observed wire ''a''
       (fst (runJob wire (smooth (Returned ''verified'') (Response 200)) ''a''
         ''The Eiffel Tower is 330m tall.'' ''How tall is the Eiffel Tower?'' Basic [] None
         (snd (createJob wire (clock 1000) eiffel (InMemory Map.empty)))))
     = [Some Running, Some Running, Some Done]"
proof -
  let ?job = "\<lparr>id_job = ''a'', status = Pending, createdAt = 1000, updatedAt = 1000,
            input = eiffel, result = None, error = None\<rparr> :: string Job"
  let ?b0 = "InMemory [''a'' \<mapsto> ?job]"
  let ?re = "smooth (Returned ''verified'') (Response 200)"
  let ?run = "runJob wire ?re ''a'' ''The Eiffel Tower is 330m tall.''
                ''How tall is the Eiffel Tower?'' Basic [] None ?b0"
  have r: "runJob wire ?re (id_job ?job) ''The Eiffel Tower is 330m tall.''
             ''How tall is the Eiffel Tower?'' Basic [] None ?b0 = (fst ?run, snd ?run)"
    by simp
  have a: "answers ?b0 (run_upd1 ?re) \<and> answers ?b0 (run_upd2 ?re)"
    by (simp add: answers_def)
  have v: "run_verify ?re = Returned ''verified''"
    by (simp add: smooth_def)
  have ev: "statuses_after Pending (map fst (fst ?run)) = [Running, Running, Done]"
    by (simp add: runJob_def updateJob_def smooth_def if_callbackUrl_def Let_def)
  from runJob_status_order [OF codec_ok_wire created_InMemory r] a v
  have "written (map fst (fst ?run)) = [Running, Done]"
    and "observed wire (id_job ?job) (fst ?run)
           = map Some (statuses_after Pending (map fst (fst ?run)))"
    by simp_all
  with ev show ?thesis
    by (simp add: created_InMemory)
qed

text \<open>
  A durable run in which the engine returns and the client rejects the write of
  \<open>done\<close> and then the read for \<open>error\<close>: only \<open>running\<close> is written, the run
  rejects, and the job stays running.
\<close>

theorem runJob_no_terminal_write_counterexample:
  "run_verify stormy = Returned ''verified''
   \<and> written (map fst (fst (runJob wire stormy ''a''
       ''The Eiffel Tower is 330m tall.'' ''How tall is the Eiffel Tower?'' Basic [] None
       (snd (createJob wire (clock 1000) eiffel (BullMQ up)))))) = [Running]
   \<and> snd (runJob wire stormy ''a''
       ''The Eiffel Tower is 330m tall.'' ''How tall is the Eiffel Tower?'' Basic [] None
       (snd (createJob wire (clock 1000) eiffel (BullMQ up)))) = Rejected ''Connection is closed.''
   \<and> map_option status (poll wire ''a'' (snd (last (fst (runJob wire stormy ''a''
       ''The Eiffel Tower is 330m tall.'' ''How tall is the Eiffel Tower?'' Basic [] None
       (snd (createJob wire (clock 1000) eiffel (BullMQ up)))))))) = Some Running"
  unfolding created_BullMQ snd_conv
  by (simp add: runJob_def catch_block_def updateJob_def BullMQ_updateJob_def
      BullMQ_getJob_def client_get_def client_set_def wire_roundtrip poll_BullMQ stormy_def
      clock_def calm_def assign_def no_patch_def if_callbackUrl_def Let_def)

section \<open>Result and error\<close>

text \<open>
  C3. The record of a job made by \<open>createJob\<close> has neither result nor error, and
  after every event of the runner's run on it the stored record has a result exactly
  when its status is done and an error exactly when its status is error; so it has
  neither while pending or running and never both.
\<close>

theorem result_error_exclusive:
  assumes "codec_ok json" and "createJob json e inp backend = (Inr job, b0)"
  shows "result_error_inv job
       \<and> (\<forall>(ev, b)\<in>set (fst (runJob json re (id_job job) out q tr apiKeys cb b0)).
            \<exists>j. poll json (id_job job) b = Some j
               \<and> ((result j \<noteq> None) = (status j = Done))
               \<and> ((error j \<noteq> None) = (status j = Error)))"
proof -
  from createJob_poll [OF assms(2,1)]
  have p: "poll json (id_job job) b0 = Some job" and s: "status job = Pending"
    and n: "result job = None" "error job = None"
    by simp_all
  from s n have "result_error_inv job"
    by (simp add: result_error_inv_def)
  moreover from follows_inv [OF runJob_follows [OF assms(1) p refl s n, of re out q tr apiKeys cb]]
  have "\<forall>(ev, b)\<in>set (fst (runJob json re (id_job job) out q tr apiKeys cb b0)).
            \<exists>j. poll json (id_job job) b = Some j
               \<and> ((result j \<noteq> None) = (status j = Done))
               \<and> ((error j \<noteq> None) = (status j = Error))"
    by (simp add: result_error_inv_def)
  ultimately show ?thesis
    by (intro conjI)
qed

theorem result_error_exclusive_witness:
  "map_option (\<lambda>j. (status j, result j, error j))
     (poll wire ''a''
        (snd (last (fst (runJob wire (smooth (Threw (ErrorObject ''provider timeout'')) (Response 200))
           ''a'' ''The Eiffel Tower is 330m tall.'' ''How tall is the Eiffel Tower?'' Basic [] None
           (snd (createJob wire (clock 1000) eiffel (BullMQ up))))))))
     = Some (Error, None, Some ''provider timeout'')"
proof -
  let ?re = "smooth (Threw (ErrorObject ''provider timeout'')) (Response 200)"
  let ?b0 = "snd (createJob wire (clock 1000) eiffel (BullMQ up))"
  let ?t = "fst (runJob wire ?re ''a'' ''The Eiffel Tower is 330m tall.''
                ''How tall is the Eiffel Tower?'' Basic [] None ?b0)"
  let ?end = "\<lparr>id_job = ''a'', status = Error, createdAt = 1000, updatedAt = 3000,
        input = eiffel, result = None :: string option, error = Some ''provider timeout''\<rparr>"
  have f: "poll wire ''a'' (snd (last ?t)) = Some ?end"
    unfolding created_BullMQ snd_conv
    by (simp add: runJob_def catch_block_def updateJob_def BullMQ_updateJob_def
        BullMQ_getJob_def client_get_def client_set_def wire_roundtrip poll_BullMQ smooth_def
        clock_def calm_def assign_def no_patch_def if_callbackUrl_def Let_def)
  have m: "last ?t \<in> set ?t"
    unfolding created_BullMQ snd_conv
    by (simp add: runJob_def catch_block_def updateJob_def BullMQ_updateJob_def
        BullMQ_getJob_def client_get_def client_set_def wire_roundtrip smooth_def
        clock_def calm_def if_callbackUrl_def Let_def)
  from result_error_exclusive [OF codec_ok_wire created_BullMQ, where re = ?re
      and out = "''The Eiffel Tower is 330m tall.''" and q = "''How tall is the Eiffel Tower?''"
      and tr = Basic and apiKeys = "[]" and cb = None]
  have "\<forall>(ev, b)\<in>set ?t. \<exists>j. poll wire ''a'' b = Some j
               \<and> ((result j \<noteq> None) = (status j = Done))
               \<and> ((error j \<noteq> None) = (status j = Error))"
    by (simp add: created_BullMQ)
  with m have "\<exists>j. poll wire ''a'' (snd (last ?t)) = Some j
               \<and> ((result j \<noteq> None) = (status j = Done))
               \<and> ((error j \<noteq> None) = (status j = Error))"
    by (auto simp: case_prod_beta)
  with f show ?thesis
    by simp
qed

section \<open>The webhook\<close>

text \<open>
  C5, as the code has it. A run of the runner sends at most one request. A request is
  sent only in a run that resolves, to the non-empty callback URL the run was given,
  after a terminal status was written, and it carries that status and the job id; it is
  a POST with a content-type header and a timeout of 10 seconds. A line is logged
  exactly when the request was sent and \<^verbatim>\<open>fetch\<close> rejected (network error or
  timeout); a response is never looked at, so a non-success status code is not logged.
  Sending and logging leave the backend untouched, and the outcome of the run, the
  statuses it writes and the backends it goes through do not depend on what happens to
  the request. In the run that the async route starts for the job it created, the URL
  is the \<open>callbackUrl\<close> of the request that created the job.
\<close>

theorem webhook_delivery:
  assumes "runJob json re k out q tr apiKeys cb b0 = (t, r)"
  shows "length (fetches (map fst t)) \<le> 1
       \<and> (\<forall>rq\<in>set (fetches (map fst t)).
            cb = Some (req_url rq) \<and> req_url rq \<noteq> [] \<and> r = Resolved
          \<and> written (map fst t) \<noteq> [] \<and> terminal (last (written (map fst t)))
          \<and> w_status (req_body rq) = last (written (map fst t))
          \<and> w_jobId (req_body rq) = k
          \<and> req_method rq = ''POST''
          \<and> req_headers rq = [(''Content-Type'', ''application/json'')]
          \<and> req_timeout_ms rq = 10000)
       \<and> ((warnings (map fst t) \<noteq> [])
            = (fetches (map fst t) \<noteq> [] \<and> (\<exists>x. run_fetch re = FetchRejected x)))
       \<and> delivery_keeps_store b0 t
       \<and> snd (runJob json (re\<lparr>run_fetch := f\<rparr>) k out q tr apiKeys cb b0) = r
       \<and> written (map fst (fst (runJob json (re\<lparr>run_fetch := f\<rparr>) k out q tr apiKeys cb b0)))
           = written (map fst t)
       \<and> set (map snd (fst (runJob json (re\<lparr>run_fetch := f\<rparr>) k out q tr apiKeys cb b0)))
           = set (map snd t)
       \<and> (\<forall>i s p t' r'.
            post_verify_async json e re process_env req backend
              = (Inr (Status202 i s p), Some (t', r')) \<longrightarrow>
            length (fetches (map fst t')) \<le> 1
          \<and> (\<forall>rq\<in>set (fetches (map fst t')).
                b_callbackUrl req = Some (req_url rq) \<and> w_jobId (req_body rq) = i))"
proof -
  note f = runJob_fetches [OF assms]
  have d: "delivery_keeps_store b0 t"
    using runJob_delivery [where json = json and re = re and k = k and out = out
      and q = q and tr = tr and apiKeys = apiKeys and cb = cb and ?b0.0 = b0] assms by simp
  from runJob_fetch_free [where json = json and re = re and f = f and k = k and out = out
      and q = q and tr = tr and apiKeys = apiKeys and cb = cb and ?b0.0 = b0] assms
  have i: "snd (runJob json (re\<lparr>run_fetch := f\<rparr>) k out q tr apiKeys cb b0) = r"
      "written (map fst (fst (runJob json (re\<lparr>run_fetch := f\<rparr>) k out q tr apiKeys cb b0)))
           = written (map fst t)"
      "set (map snd (fst (runJob json (re\<lparr>run_fetch := f\<rparr>) k out q tr apiKeys cb b0)))
           = set (map snd t)"
    by simp_all
  have h: "\<forall>i s p t' r'.
            post_verify_async json e re process_env req backend
              = (Inr (Status202 i s p), Some (t', r')) \<longrightarrow>
            length (fetches (map fst t')) \<le> 1
          \<and> (\<forall>rq\<in>set (fetches (map fst t')).
                b_callbackUrl req = Some (req_url rq) \<and> w_jobId (req_body rq) = i)"
  proof (intro allI impI)
    fix i s p t' r'
    assume "post_verify_async json e re process_env req backend
              = (Inr (Status202 i s p), Some (t', r'))"
    from post_verify_async_accepted [OF this] obtain job b1 out' q' tr' keys
      where "createJob json e \<lparr>output_text = out', question = q', tier = tr',
                              callbackUrl = b_callbackUrl req\<rparr> backend = (Inr job, b1)"
        and "i = id_job job"
        and "runJob json re (id_job job) out' q' tr' keys (b_callbackUrl req) b1 = (t', r')"
      by blast
    with runJob_fetches [of json re "id_job job" out' q' tr' keys "b_callbackUrl req" b1 t' r']
    show "length (fetches (map fst t')) \<le> 1
          \<and> (\<forall>rq\<in>set (fetches (map fst t')).
                b_callbackUrl req = Some (req_url rq) \<and> w_jobId (req_body rq) = i)"
      by simp
  qed
  from f runJob_warnings [OF assms] d i h show ?thesis
    by (intro conjI) (erule conjunct1, erule conjunct2, assumption+)
qed

theorem webhook_delivery_witness:
  "map_option (\<lambda>(t, r). (fetches (map fst t), warnings (map fst t) = [], r))
     (snd (post_verify_async wire (clock 1000)
        (smooth (Returned ''verified'') (FetchRejected (ErrorObject ''timeout'')))
        process_keys eiffel_request (InMemory Map.empty)))
   = Some ([\<lparr>req_url = ''https://agent.example/webhook'', req_method = ''POST'',
              req_headers = [(''Content-Type'', ''application/json'')],
              req_body = \<lparr>w_jobId = ''a'', w_status = Done, w_result = Some ''verified'',
                           w_error = None\<rparr>,
              req_timeout_ms = 10000\<rparr>], False, Resolved)"
proof -
  let ?re = "smooth (Returned ''verified'') (FetchRejected (ErrorObject ''timeout''))"
  let ?b0 = "snd (createJob wire (clock 1000)
                 (eiffel\<lparr>callbackUrl := Some ''https://agent.example/webhook''\<rparr>)
                 (InMemory Map.empty))"
  let ?run = "runJob wire ?re ''a'' ''The Eiffel Tower is 330m tall.''
                ''How tall is the Eiffel Tower?'' Basic [(''anthropic'', ''sk-ant-test'')]
                (Some ''https://agent.example/webhook'') ?b0"
  have r: "?run = (fst ?run, snd ?run)"
    by simp
  have f: "fetches (map fst (fst ?run))
     = [\<lparr>req_url = ''https://agent.example/webhook'', req_method = ''POST'',
         req_headers = [(''Content-Type'', ''application/json'')],
         req_body = \<lparr>w_jobId = ''a'', w_status = Done, w_result = Some ''verified'', w_error = None\<rparr>,
         req_timeout_ms = 10000\<rparr>]"
    unfolding created_InMemory snd_conv
    by (simp add: runJob_def updateJob_def smooth_def Let_def if_callbackUrl_def pushWebhook_def)
  have x: "\<exists>x. run_fetch ?re = FetchRejected x"
    by (simp add: smooth_def)
  from webhook_delivery [OF r] f x
  have "warnings (map fst (fst ?run)) \<noteq> []" and "snd ?run = Resolved"
    by simp_all
  with f show ?thesis
    by (simp add: accepted_InMemory case_prod_beta)
qed

text \<open>
  A response with status 500 is not a failure for \<open>pushWebhook\<close>: nothing is logged,
  alone or inside a run.
\<close>

theorem webhook_status_not_logged_counterexample:
  "warnings (pushWebhook (Response 500) ''https://agent.example/webhook''
      \<lparr>w_jobId = ''a'', w_status = Done, w_result = Some ''verified'', w_error = None\<rparr>) = []
   \<and> warnings (map fst (fst (runJob wire (smooth (Returned ''verified'') (Response 500))
       ''a'' ''The Eiffel Tower is 330m tall.'' ''How tall is the Eiffel Tower?'' Basic []
       (Some ''https://agent.example/webhook'')
       (snd (createJob wire (clock 1000) eiffel (InMemory Map.empty)))))) = []"
  by (simp add: runJob_def updateJob_def created_InMemory smooth_def Let_def
        if_callbackUrl_def pushWebhook_def)

section \<open>The backends compared\<close>

lemma sim_step:
  assumes "codec_ok json" and "sim json store b" and "healthy e" and "keeps_id c"
  shows "\<exists>store' b'.
           facade_step json (e, c) (InMemory store) = (fst (facade_step json (e, c) (BullMQ b)), InMemory store')
         \<and> snd (facade_step json (e, c) (BullMQ b)) = BullMQ b'
         \<and> sim json store' b'"
proof (cases c)
  case (CreateJob inp)
  let ?job = "\<lparr>id_job = env_uuid e, status = Pending, createdAt = env_now e, updatedAt = env_now2 e,
       input = inp, result = None, error = None\<rparr> :: 'a Job"
  from assms have "sim json (store(env_uuid e \<mapsto> ?job))
      (b\<lparr>client := (client b)(key (env_uuid e) \<mapsto> (stringify json ?job, 86400))\<rparr>)"
    by (auto simp: sim_def poll_BullMQ codec_ok_def key_inj)
  with assms CreateJob show ?thesis
    by (simp add: createJob_def InMemory_createJob_def BullMQ_createJob_def client_set_def
        healthy_def sim_def Let_def)
next
  case (GetJob k)
  from assms have "BullMQ_getJob json None k b = Inr (store k)"
    by (simp add: sim_getJob)
  with assms GetJob show ?thesis
    by (simp add: getJob_def InMemory_getJob_def healthy_def)
next
  case (UpdateJob k patch)
  from assms have g: "BullMQ_getJob json None k b = Inr (store k)" and r: "ready b = None"
    by (simp_all add: sim_getJob sim_def)
  show ?thesis
  proof (cases "store k")
    case None
    with assms UpdateJob g r show ?thesis
      by (simp add: updateJob_def InMemory_updateJob_def BullMQ_updateJob_def healthy_def)
  next
    case (Some j)
    with assms(2) have i: "id_job j = k"
      by (simp add: sim_def)
    from assms UpdateJob have n: "p_id patch = None"
      by simp
    from assms Some i n have "sim json (store(k \<mapsto> assign j patch (env_now e)))
      (b\<lparr>client := (client b)(key k \<mapsto> (stringify json (assign j patch (env_now e)), 86400))\<rparr>)"
      by (auto simp: sim_def poll_BullMQ codec_ok_def key_inj assign_def)
    with assms UpdateJob g r Some i show ?thesis
      by (simp add: updateJob_def InMemory_updateJob_def BullMQ_updateJob_def client_set_def
          healthy_def Let_def)
  qed
qed

lemma sim_run:
  assumes "codec_ok json" and "sim json store b"
    and "\<forall>c\<in>set calls. healthy (fst c) \<and> keeps_id (snd c)"
  shows "facade_run json calls (BullMQ b) = facade_run json calls (InMemory store)"
  using assms(2,3)
proof (induction calls arbitrary: store b)
  case Nil
  then show ?case by simp
next
  case (Cons c calls)
  obtain e x where c: "c = (e, x)"
    by (cases c)
  with Cons.prems have h: "healthy e" "keeps_id x"
    by simp_all
  from sim_step [OF assms(1) Cons.prems(1) h] obtain store' b'
    where m: "facade_step json (e, x) (InMemory store)
                = (fst (facade_step json (e, x) (BullMQ b)), InMemory store')"
      and d: "snd (facade_step json (e, x) (BullMQ b)) = BullMQ b'"
      and s: "sim json store' b'"
    by blast
  from Cons.prems have "\<forall>c\<in>set calls. healthy (fst c) \<and> keeps_id (snd c)"
    by simp
  from Cons.IH [OF s this] m d c show ?case
    by (simp add: case_prod_beta)
qed

lemma sound_empty: "sound empty_memory"
  by (simp add: sound_def empty_memory_def)

lemma stored_empty: "stored empty_memory = Map.empty"
  by (simp add: stored_def empty_memory_def)

lemma live_step_sim:
  assumes "sound m"
  shows "sound (snd (live_step c m))
       \<and> read_reply (snd (live_step c m)) (fst (live_step c m))
           = Some (fst (facade_step json c (InMemory (stored m))))
       \<and> snd (facade_step json c (InMemory (stored m))) = InMemory (stored (snd (live_step c m)))"
proof -
  obtain e x where c: "c = (e, x)"
    by (cases c)
  show ?thesis
  proof (cases x)
    case (CreateJob inp)
    from assms have "\<forall>k. entries m k \<noteq> Some (fresh m)"
      by (auto simp: sound_def)
    with assms c CreateJob show ?thesis
      by (auto simp: sound_def stored_def Live_createJob_def createJob_def InMemory_createJob_def
          Let_def fun_eq_iff less_Suc_eq split: option.splits)
  next
    case (GetJob k)
    show ?thesis
    proof (cases "entries m k")
      case None
      with assms c GetJob show ?thesis
        by (simp add: stored_def Live_getJob_def getJob_def InMemory_getJob_def)
    next
      case (Some a)
      with assms obtain job where "objects m a = Some job"
        unfolding sound_def by blast
      with assms c GetJob Some show ?thesis
        by (simp add: stored_def Live_getJob_def getJob_def InMemory_getJob_def)
    qed
  next
    case (UpdateJob k patch)
    with assms c show ?thesis
      by (auto simp: sound_def stored_def Live_updateJob_def updateJob_def InMemory_updateJob_def
          fun_eq_iff split: option.splits)
  qed
qed


lemma live_run_sim:
  "sound m \<Longrightarrow>
   map (\<lambda>(r, m'). read_reply m' r) (live_run calls m)
     = map Some (facade_run json calls (InMemory (stored m)))"
proof (induction calls arbitrary: m)
  case Nil
  then show ?case by simp
next
  case (Cons c calls)
  from live_step_sim [OF Cons.prems, of c json]
  have s: "sound (snd (live_step c m))"
    and r: "read_reply (snd (live_step c m)) (fst (live_step c m))
           = Some (fst (facade_step json c (InMemory (stored m))))"
    and n: "snd (facade_step json c (InMemory (stored m))) = InMemory (stored (snd (live_step c m)))"
    by simp_all
  from Cons.IH [OF s] r n show ?case
    by (simp add: case_prod_beta)
qed

text \<open>
  C9, as the code has it. Started empty, the two backends give the same replies to every
  sequence of calls of the wrappers in which the environment is the same, the client
  rejects no command and no patch names \<open>id\<close>, for a codec that reads back what it
  wrote, each reply being read at the moment its call returns: this holds of the
  in-memory backend taken with its objects as well. (Expiry is not part of such a
  sequence: no timer fires and no key expires between the calls.)
\<close>

theorem backends_agree:
  assumes "codec_ok json" and "\<forall>c\<in>set calls. healthy (fst c) \<and> keeps_id (snd c)"
  shows "facade_run json calls (BullMQ \<lparr>ready = None, client = Map.empty\<rparr>)
           = facade_run json calls (InMemory Map.empty)
       \<and> map (\<lambda>(r, m). read_reply m r) (live_run calls empty_memory)
           = map Some (facade_run json calls (BullMQ \<lparr>ready = None, client = Map.empty\<rparr>))"
proof -
  have "sim json Map.empty \<lparr>ready = None, client = Map.empty\<rparr>"
    by (simp add: sim_def poll_BullMQ)
  from sim_run [OF assms(1) this assms(2)]
  have 1: "facade_run json calls (BullMQ \<lparr>ready = None, client = Map.empty\<rparr>)
           = facade_run json calls (InMemory Map.empty)" .
  from live_run_sim [OF sound_empty, of calls json]
  have "map (\<lambda>(r, m). read_reply m r) (live_run calls empty_memory)
           = map Some (facade_run json calls (InMemory Map.empty))"
    by (simp add: stored_empty)
  with 1 show ?thesis
    by simp
qed

theorem backends_agree_witness:
  "facade_run wire
     [(clock 1000, CreateJob eiffel),
      (clock 2000, UpdateJob ''a'' (no_patch\<lparr>p_status := Some Running\<rparr>)),
      (clock 3000, GetJob ''a'')] (BullMQ up)
   = [Created \<lparr>id_job = ''a'', status = Pending, createdAt = 1000, updatedAt = 1000,
                input = eiffel, result = None, error = None\<rparr>,
      Updated,
      Got (Some \<lparr>id_job = ''a'', status = Running, createdAt = 1000, updatedAt = 2000,
                  input = eiffel, result = None, error = None\<rparr>)]
   \<and> map (\<lambda>(r, m). read_reply m r) (live_run
     [(clock 1000, CreateJob eiffel),
      (clock 2000, UpdateJob ''a'' (no_patch\<lparr>p_status := Some Running\<rparr>)),
      (clock 3000, GetJob ''a'')] (empty_memory :: string memory))
   = [Some (Created \<lparr>id_job = ''a'', status = Pending, createdAt = 1000, updatedAt = 1000,
                input = eiffel, result = None, error = None\<rparr>),
      Some Updated,
      Some (Got (Some \<lparr>id_job = ''a'', status = Running, createdAt = 1000, updatedAt = 2000,
                  input = eiffel, result = None, error = None\<rparr>))]"
proof -
  let ?calls = "[(clock 1000, CreateJob eiffel),
      (clock 2000, UpdateJob ''a'' (no_patch\<lparr>p_status := Some Running\<rparr>)),
      (clock 3000, GetJob ''a'')] :: (env \<times> string op) list"
  have h: "\<forall>c\<in>set ?calls. healthy (fst c) \<and> keeps_id (snd c)"
    by (simp add: healthy_def clock_def calm_def no_patch_def)
  have "facade_run wire ?calls (InMemory Map.empty)
   = [Created \<lparr>id_job = ''a'', status = Pending, createdAt = 1000, updatedAt = 1000,
                input = eiffel, result = None, error = None\<rparr>,
      Updated,
      Got (Some \<lparr>id_job = ''a'', status = Running, createdAt = 1000, updatedAt = 2000,
                  input = eiffel, result = None, error = None\<rparr>)]"
    by (simp add: createJob_def InMemory_createJob_def updateJob_def InMemory_updateJob_def
        getJob_def InMemory_getJob_def clock_def calm_def assign_def no_patch_def Let_def)
  with backends_agree [OF codec_ok_wire h] show ?thesis
    by (simp add: up_def)
qed

text \<open>
  Three sequences on which the backends disagree. After a patch that names \<open>id\<close>, the
  durable backend writes the next update under the key of the new id, so a poll of the
  old id still sees the job pending where the in-memory backend shows it running. A
  read that the client rejects fails in the durable backend and cannot fail in the
  in-memory one. And the result of \<open>createJob\<close>, read after an update, shows the
  update in the in-memory backend, whose result is the stored object, and not in the
  durable one.
\<close>

theorem backends_differ_counterexample:
  "last (facade_run wire
     [(clock 1000, CreateJob eiffel),
      (clock 2000, UpdateJob ''a'' (no_patch\<lparr>p_id := Some ''b''\<rparr>)),
      (clock 3000, UpdateJob ''a'' (no_patch\<lparr>p_status := Some Running\<rparr>)),
      (clock 4000, GetJob ''a'')] (InMemory Map.empty))
   = Got (Some \<lparr>id_job = ''b'', status = Running, createdAt = 1000, updatedAt = 3000,
                 input = eiffel, result = None, error = None\<rparr>)
   \<and> last (facade_run wire
     [(clock 1000, CreateJob eiffel),
      (clock 2000, UpdateJob ''a'' (no_patch\<lparr>p_id := Some ''b''\<rparr>)),
      (clock 3000, UpdateJob ''a'' (no_patch\<lparr>p_status := Some Running\<rparr>)),
      (clock 4000, GetJob ''a'')] (BullMQ up))
   = Got (Some \<lparr>id_job = ''b'', status = Pending, createdAt = 1000, updatedAt = 2000,
                 input = eiffel, result = None, error = None\<rparr>)
   \<and> facade_run wire [((clock 1000)\<lparr>env_fault := Some ''Connection is closed.''\<rparr>, GetJob ''a'')]
       (InMemory Map.empty) = [Got None]
   \<and> facade_run wire [((clock 1000)\<lparr>env_fault := Some ''Connection is closed.''\<rparr>, GetJob ''a'')]
       (BullMQ up) = [Failed ''Connection is closed.'']
   \<and> read_reply
     (snd (last (live_run
        [(clock 1000, CreateJob eiffel),
         (clock 2000, UpdateJob ''a'' (no_patch\<lparr>p_status := Some Running\<rparr>))]
        (empty_memory :: string memory))))
     (fst (hd (live_run
        [(clock 1000, CreateJob eiffel),
         (clock 2000, UpdateJob ''a'' (no_patch\<lparr>p_status := Some Running\<rparr>))]
        (empty_memory :: string memory))))
   = Some (Created \<lparr>id_job = ''a'', status = Running, createdAt = 1000, updatedAt = 2000,
                     input = eiffel, result = None, error = None\<rparr>)
   \<and> hd (facade_run wire
        [(clock 1000, CreateJob eiffel),
         (clock 2000, UpdateJob ''a'' (no_patch\<lparr>p_status := Some Running\<rparr>))] (BullMQ up))
   = Created \<lparr>id_job = ''a'', status = Pending, createdAt = 1000, updatedAt = 1000,
               input = eiffel, result = None, error = None\<rparr>"
proof -
  have k: "key ''b'' \<noteq> key ''a''"
    by (simp add: key_def)
  have a: "read_reply
     (snd (last (live_run
        [(clock 1000, CreateJob eiffel),
         (clock 2000, UpdateJob ''a'' (no_patch\<lparr>p_status := Some Running\<rparr>))]
        (empty_memory :: string memory))))
     (fst (hd (live_run
        [(clock 1000, CreateJob eiffel),
         (clock 2000, UpdateJob ''a'' (no_patch\<lparr>p_status := Some Running\<rparr>))]
        (empty_memory :: string memory))))
   = Some (Created \<lparr>id_job = ''a'', status = Running, createdAt = 1000, updatedAt = 2000,
                     input = eiffel, result = None, error = None\<rparr>)"
    by (simp add: Live_createJob_def Live_updateJob_def empty_memory_def clock_def calm_def
        assign_def no_patch_def Let_def)
  have h: "hd (facade_run wire
        [(clock 1000, CreateJob eiffel),
         (clock 2000, UpdateJob ''a'' (no_patch\<lparr>p_status := Some Running\<rparr>))] (BullMQ up))
   = Created \<lparr>id_job = ''a'', status = Pending, createdAt = 1000, updatedAt = 1000,
               input = eiffel, result = None, error = None\<rparr>"
    by (simp add: createJob_def BullMQ_createJob_def client_set_def up_def clock_def calm_def
        Let_def case_prod_beta)
  have "last (facade_run wire
     [(clock 1000, CreateJob eiffel),
      (clock 2000, UpdateJob ''a'' (no_patch\<lparr>p_id := Some ''b''\<rparr>)),
      (clock 3000, UpdateJob ''a'' (no_patch\<lparr>p_status := Some Running\<rparr>)),
      (clock 4000, GetJob ''a'')] (InMemory Map.empty))
   = Got (Some \<lparr>id_job = ''b'', status = Running, createdAt = 1000, updatedAt = 3000,
                 input = eiffel, result = None, error = None\<rparr>)"
    by (simp add: createJob_def InMemory_createJob_def updateJob_def InMemory_updateJob_def
        getJob_def InMemory_getJob_def clock_def calm_def assign_def no_patch_def Let_def)
  moreover have "last (facade_run wire
     [(clock 1000, CreateJob eiffel),
      (clock 2000, UpdateJob ''a'' (no_patch\<lparr>p_id := Some ''b''\<rparr>)),
      (clock 3000, UpdateJob ''a'' (no_patch\<lparr>p_status := Some Running\<rparr>)),
      (clock 4000, GetJob ''a'')] (BullMQ up))
   = Got (Some \<lparr>id_job = ''b'', status = Pending, createdAt = 1000, updatedAt = 2000,
                 input = eiffel, result = None, error = None\<rparr>)"
    using k
    by (simp add: createJob_def BullMQ_createJob_def updateJob_def BullMQ_updateJob_def
        getJob_def BullMQ_getJob_def client_get_def client_set_def wire_roundtrip up_def
        clock_def calm_def assign_def no_patch_def Let_def)
  moreover have "facade_run wire [((clock 1000)\<lparr>env_fault := Some ''Connection is closed.''\<rparr>, GetJob ''a'')]
       (InMemory Map.empty) = [Got None]"
    by (simp add: getJob_def InMemory_getJob_def)
  moreover have "facade_run wire [((clock 1000)\<lparr>env_fault := Some ''Connection is closed.''\<rparr>, GetJob ''a'')]
       (BullMQ up) = [Failed ''Connection is closed.'']"
    by (simp add: getJob_def BullMQ_getJob_def client_get_def up_def)
  ultimately show ?thesis
    using a h by (intro conjI)
qed

end
